theory Spec2Isabelle
  imports Main "HOL-Library.Word"
begin

section \<open>Machine types, hashes and errors\<close>

text \<open>
  Go's \<open>uint64\<close>, \<open>uint32\<close>, \<open>uint8\<close> and \<open>uint\<close> are words of that width (\<open>uint\<close> and
  \<open>int\<close> are taken at 64 bits, as on the 64-bit targets the program is built for); \<open>+\<close> and
  \<open>-\<close> wrap around as in Go. \<open>common.Hash\<close> is a 32-byte array, kept as the list of its
  bytes.
\<close>

type_synonym u64 = "64 word"
type_synonym u32 = "32 word"
type_synonym byte = "8 word"
type_synonym Hash = "byte list"

text \<open>
  Errors are values. \<open>Errorf msg (Some e)\<close> is \<open>fmt.Errorf("msg: %w", e)\<close>,
  \<open>Errorf msg None\<close> an error made from text alone, \<open>External n\<close> an error handed back
  by a collaborator (storage, remote authority, syncer, signer), and
  \<open>PanicNilDereference\<close> the run-time fault of reading through a nil pointer.
\<close>

datatype error =
    errNoBridgesAndClaims
  | errInvalidSignatureSize
  | External nat
  | Errorf string "error option"
  | PanicNilDereference

definition signatureSize :: nat where
  "signatureSize = 65"

definition HashLength :: nat where
  "HashLength = 32"

text \<open>\<open>common.Hash{}\<close>, the zero value.\<close>

definition emptyHash :: Hash where
  "emptyHash = replicate HashLength 0"

text \<open>
  \<open>common.BytesToHash\<close> of go-ethereum: a slice longer than 32 bytes is cropped from the
  left, a shorter one is left-padded with zeros.
\<close>

definition BytesToHash :: "byte list \<Rightarrow> Hash" where
  "BytesToHash b =
     (let b' = (if length b > HashLength then drop (length b - HashLength) b else b)
      in replicate (HashLength - length b') 0 @ b')"

text \<open>\<open>zeroLER = common.HexToHash("0x27ae5ba0...6171d757")\<close>.\<close>

definition zeroLER :: Hash where
  "zeroLER =
     [0x27, 0xae, 0x5b, 0xa0, 0x8d, 0x72, 0x91, 0xc9, 0x6c, 0x8c, 0xbd, 0xdc, 0xc1, 0x48, 0xbf, 0x48,
      0xa6, 0xd6, 0x8c, 0x79, 0x74, 0xb9, 0x43, 0x56, 0xf5, 0x37, 0x54, 0xef, 0x61, 0x71, 0xd7, 0x57]"

section \<open>Certificate status\<close>

text \<open>
  Modelled from the spec: the type \<open>agglayer.CertificateStatus\<close> and its helper predicates
  belong to the cdk library and are not part of the sources. The spec gives a tri-state
  taxonomy, \<open>Pending\<close> (open: submitted, outcome unknown), \<open>Settled\<close> (closed, success) and
  \<open>InError\<close> (closed, failure, retryable), with "closed" = {Settled, InError}.
\<close>

datatype CertificateStatus = Pending | Settled | InError

text \<open>Modelled from the spec: helper predicates of the status type.\<close>

definition IsClosed :: "CertificateStatus \<Rightarrow> bool" where
  "IsClosed s = (s = Settled \<or> s = InError)"

definition IsOpen :: "CertificateStatus \<Rightarrow> bool" where
  "IsOpen s = (\<not> IsClosed s)"

definition IsSettled :: "CertificateStatus \<Rightarrow> bool" where
  "IsSettled s = (s = Settled)"

definition IsInError :: "CertificateStatus \<Rightarrow> bool" where
  "IsInError s = (s = InError)"

text \<open>
  Modelled from the spec: \<open>agglayer.NonSettledStatuses\<close>, the statuses the Submission Loop
  asks the store for ("certificates in any open/non-final remote status").
\<close>

definition NonSettledStatuses :: "CertificateStatus list" where
  "NonSettledStatuses = [Pending]"

section \<open>Persisted records and remote headers\<close>

text \<open>
  \<open>types.CertificateInfo\<close>, the persisted record. \<open>PreviousLocalExitRoot\<close> is a pointer in
  the source, hence optional. A record built without a \<open>Status\<close> field carries the zero
  value of the status type, which the spec names as the state of a certificate that was
  submitted and whose outcome is unknown.
\<close>

record CertificateInfo =
  ci_Height :: u64
  ci_RetryCount :: "64 word"
  ci_CertificateID :: Hash
  ci_NewLocalExitRoot :: Hash
  ci_PreviousLocalExitRoot :: "Hash option"
  ci_FromBlock :: u64
  ci_ToBlock :: u64
  ci_Status :: CertificateStatus
  ci_CreatedAt :: u32
  ci_UpdatedAt :: u32
  ci_SignedCertificate :: string

text \<open>\<open>agglayer.CertificateHeader\<close>, as far as the program reads it.\<close>

record CertificateHeader =
  ch_Height :: u64
  ch_CertificateID :: Hash
  ch_NewLocalExitRoot :: Hash
  ch_PreviousLocalExitRoot :: "Hash option"
  ch_Metadata :: Hash
  ch_Status :: CertificateStatus

text \<open>\<open>types.CertificateMetadata\<close>, the decoded form of a header's metadata hash.\<close>

record CertificateMetadata =
  m_ToBlock :: u64
  m_FromBlock :: u64
  m_Offset :: u32
  m_CreatedAt :: u32
  m_Version :: byte

section \<open>Signer: decomposing the signature\<close>

text \<open>
  \<open>extractSignatureData\<close>: R, S and the parity of V out of a 65-byte signature. The index
  64 is read only after the length check, so it is in range.
\<close>

definition extractSignatureData :: "byte list \<Rightarrow> error + (Hash \<times> Hash \<times> bool)" where
  "extractSignatureData signature =
     (if length signature \<noteq> signatureSize then Inl errInvalidSignatureSize
      else Inr (BytesToHash (take 32 signature),
                BytesToHash (take 32 (drop 32 signature)),
                unat (signature ! 64) mod 2 = 1))"

section \<open>Last sent block and retry count\<close>

text \<open>
  \<open>getLastSentBlockAndRetryCount\<close>: the block after which the next certificate starts, and
  the retry count it will carry.
\<close>

definition getLastSentBlockAndRetryCount :: "CertificateInfo option \<Rightarrow> u64 \<times> 64 word" where
  "getLastSentBlockAndRetryCount lastSentCertificateInfo =
     (case lastSentCertificateInfo of
        None \<Rightarrow> (0, 0)
      | Some l \<Rightarrow>
          if ci_Status l = InError
          then (if ci_FromBlock l > 0 then ci_FromBlock l - 1 else ci_ToBlock l,
                ci_RetryCount l + 1)
          else (ci_ToBlock l, 0))"

section \<open>Height and previous local exit root\<close>

text \<open>
  \<open>getNextHeightAndPreviousLER\<close>. The only collaborator is the store's
  \<open>GetCertificateByHeight\<close>, passed as the function from a height to what the call
  returns: an error, no certificate, or a certificate.
\<close>

definition getNextHeightAndPreviousLER ::
  "(u64 \<Rightarrow> error + CertificateInfo option) \<Rightarrow> CertificateInfo option \<Rightarrow> error + (u64 \<times> Hash)" where
  "getNextHeightAndPreviousLER GetCertificateByHeight lastSentCertificateInfo =
     (case lastSentCertificateInfo of
        None \<Rightarrow> Inr (0, zeroLER)
      | Some l \<Rightarrow>
          if \<not> IsClosed (ci_Status l) then Inl (Errorf ''last certificate is not closed'' None)
          else if IsSettled (ci_Status l) then Inr (ci_Height l + 1, ci_NewLocalExitRoot l)
          else if IsInError (ci_Status l) then
            (case ci_PreviousLocalExitRoot l of
               Some prevLER \<Rightarrow> Inr (ci_Height l, prevLER)
             | None \<Rightarrow>
                 if ci_Height l = 0 then Inr (0, zeroLER)
                 else
                   (case GetCertificateByHeight (ci_Height l - 1) of
                      Inl err \<Rightarrow> Inl (Errorf ''error getting last settled certificate'' (Some err))
                    | Inr None \<Rightarrow> Inl (Errorf ''none settled certificate'' None)
                    | Inr (Some lastSettleCert) \<Rightarrow>
                        if \<not> IsSettled (ci_Status lastSettleCert)
                        then Inl (Errorf ''last settled certificate is not settled'' None)
                        else Inr (ci_Height l, ci_NewLocalExitRoot lastSettleCert)))
          else Inl (Errorf ''last certificate has an unknown status'' None))"

section \<open>Certificate build parameters and the Size Governor\<close>

text \<open>\<open>bridgesync.Bridge\<close> and \<open>bridgesync.Claim\<close>, with the fields the program reads.\<close>

record Bridge =
  b_BlockNum :: u64
  b_BlockPos :: u64
  b_LeafType :: byte
  b_OriginNetwork :: u32
  b_OriginAddress :: "byte list"
  b_DestinationNetwork :: u32
  b_DestinationAddress :: "byte list"
  b_Amount :: int
  b_Metadata :: "byte list"
  b_DepositCount :: u32

record Claim =
  cl_BlockNum :: u64
  cl_BlockPos :: u64
  cl_GlobalIndex :: int
  cl_OriginNetwork :: u32
  cl_OriginAddress :: "byte list"
  cl_DestinationNetwork :: u32
  cl_DestinationAddress :: "byte list"
  cl_Amount :: int
  cl_GlobalExitRoot :: Hash
  cl_MainnetExitRoot :: Hash
  cl_RollupExitRoot :: Hash
  cl_ProofLocalExitRoot :: "Hash list"
  cl_ProofRollupExitRoot :: "Hash list"
  cl_Metadata :: "byte list"
  cl_IsMessage :: bool

record CertificateBuildParams =
  p_FromBlock :: u64
  p_ToBlock :: u64
  p_Bridges :: "Bridge list"
  p_Claims :: "Claim list"
  p_CreatedAt :: u32

text \<open>
  Modelled from the spec: the methods of \<open>types.CertificateBuildParams\<close> belong to the cdk
  library and are not part of the sources. \<open>NumberOfBridges\<close> counts the bridge events,
  \<open>NumberOfBlocks\<close> is the number of blocks of the range ("the range is down to one block"),
  \<open>IsEmpty\<close> holds "iff both Bridges and Claims are empty".
\<close>

definition NumberOfBridges :: "CertificateBuildParams \<Rightarrow> nat" where
  "NumberOfBridges c = length (p_Bridges c)"

definition NumberOfBlocks :: "CertificateBuildParams \<Rightarrow> int" where
  "NumberOfBlocks c = uint (p_ToBlock c) - uint (p_FromBlock c) + 1"

definition IsEmpty :: "CertificateBuildParams \<Rightarrow> bool" where
  "IsEmpty c = (p_Bridges c = [] \<and> p_Claims c = [])"

text \<open>
  Modelled from the spec: \<open>Range(newFrom, newTo)\<close> "re-filters Bridges/Claims to the new
  sub-range". The call in \<open>limitCertSize\<close> shows that it can fail; the model fails exactly
  when the requested range is not a sub-range of the current one.
\<close>

definition inRange :: "u64 \<Rightarrow> u64 \<Rightarrow> u64 \<Rightarrow> bool" where
  "inRange fromBlock toBlock n = (fromBlock \<le> n \<and> n \<le> toBlock)"

definition Range :: "CertificateBuildParams \<Rightarrow> u64 \<Rightarrow> u64 \<Rightarrow> error + CertificateBuildParams" where
  "Range c fromBlock toBlock =
     (if p_FromBlock c > fromBlock \<or> p_ToBlock c < toBlock then Inl (Errorf ''invalid range'' None)
      else Inr (c\<lparr>p_FromBlock := fromBlock, p_ToBlock := toBlock,
                  p_Bridges := filter (\<lambda>b. inRange fromBlock toBlock (b_BlockNum b)) (p_Bridges c),
                  p_Claims := filter (\<lambda>cl. inRange fromBlock toBlock (cl_BlockNum cl)) (p_Claims c)\<rparr>))"

text \<open>
  \<open>limitCertSize\<close>: the loop body is one call of \<open>limitCertSizeLoop\<close>, which carries the two
  loop variables \<open>currentCert\<close> and \<open>previousCert\<close> (a pointer, nil before the first cut).

  \<open>EstimatedSize\<close> is a method of the library type as well; its value on build parameters is
  the parameter \<open>EstimatedSize\<close>. The zero-bridges branch calls it through \<open>previousCert\<close>
  for a log line only and returns \<open>previousCert\<close> with no error. The library's method tests
  its receiver for nil before reading it (the size of a nil receiver is 0), so the call
  returns also when \<open>previousCert\<close> is nil, which it is in the first iteration: the branch
  then returns the nil pointer.
\<close>

function limitCertSizeLoop ::
  "(CertificateBuildParams \<Rightarrow> u64) \<Rightarrow> u64 \<Rightarrow> CertificateBuildParams \<Rightarrow>
   CertificateBuildParams option \<Rightarrow> error + CertificateBuildParams option" where
  "limitCertSizeLoop EstimatedSize MaxCertSize currentCert previousCert =
     (if NumberOfBridges currentCert = 0 then Inr previousCert
      else if MaxCertSize = 0 \<or> EstimatedSize currentCert < MaxCertSize then Inr (Some currentCert)
      else if NumberOfBlocks currentCert \<le> 1 then Inr (Some currentCert)
      else
        (case Range currentCert (p_FromBlock currentCert) (p_ToBlock currentCert - 1) of
           Inl err \<Rightarrow> Inl (Errorf ''error reducing certificate'' (Some err))
         | Inr c \<Rightarrow> limitCertSizeLoop EstimatedSize MaxCertSize c (Some currentCert)))"
  by pat_completeness auto
termination
proof (relation "measure (\<lambda>(EstimatedSize, MaxCertSize, currentCert, previousCert).
                            nat (NumberOfBlocks currentCert))", goal_cases)
  case 1
  show ?case by simp
next
  case (2 EstimatedSize MaxCertSize currentCert previousCert c)
  from 2(3) have blocks: "1 < NumberOfBlocks currentCert"
    by simp
  then have lt: "uint (p_FromBlock currentCert) < uint (p_ToBlock currentCert)"
    by (simp add: NumberOfBlocks_def)
  have "1 \<le> uint (p_ToBlock currentCert)"
    using lt uint_ge_0 [of "p_FromBlock currentCert"] by linarith
  then have "uint (1 :: u64) \<le> uint (p_ToBlock currentCert)"
    by simp
  then have dec: "uint (p_ToBlock currentCert - 1) = uint (p_ToBlock currentCert) - 1"
    using uint_sub_lem [of 1 "p_ToBlock currentCert"] by simp
  from 2(4) have "p_FromBlock c = p_FromBlock currentCert" "p_ToBlock c = p_ToBlock currentCert - 1"
    by (auto simp: Range_def split: if_splits)
  then have "NumberOfBlocks c = NumberOfBlocks currentCert - 1"
    using dec by (simp add: NumberOfBlocks_def)
  then show ?case
    using blocks by simp
qed

declare limitCertSizeLoop.simps [simp del]

definition limitCertSize ::
  "(CertificateBuildParams \<Rightarrow> u64) \<Rightarrow> u64 \<Rightarrow> CertificateBuildParams \<Rightarrow>
   error + CertificateBuildParams option" where
  "limitCertSize EstimatedSize MaxCertSize fullCert =
     limitCertSizeLoop EstimatedSize MaxCertSize fullCert None"

section \<open>Certificates\<close>

record TokenInfo =
  ti_OriginNetwork :: u32
  ti_OriginTokenAddress :: "byte list"

record BridgeExit =
  be_LeafType :: byte
  be_TokenInfo :: TokenInfo
  be_DestinationNetwork :: u32
  be_DestinationAddress :: "byte list"
  be_Amount :: int
  be_IsMetadataHashed :: bool
  be_Metadata :: "byte list"

record GlobalIndex =
  gi_MainnetFlag :: bool
  gi_RollupIndex :: u32
  gi_LeafIndex :: u32

text \<open>The leaf of the L1 info tree as the syncer returns it, and as a certificate carries it.\<close>

record L1InfoTreeLeaf =
  l1_L1InfoTreeIndex :: u32
  l1_GlobalExitRoot :: Hash
  l1_Timestamp :: u64
  l1_PreviousBlockHash :: Hash

record L1InfoTreeLeafInner =
  li_GlobalExitRoot :: Hash
  li_Timestamp :: u64
  li_BlockHash :: Hash

record AgglayerL1InfoTreeLeaf =
  al_L1InfoTreeIndex :: u32
  al_RollupExitRoot :: Hash
  al_MainnetExitRoot :: Hash
  al_Inner :: L1InfoTreeLeafInner

record MerkleProof =
  mp_Root :: Hash
  mp_Proof :: "Hash list"

text \<open>The claim data is one of two proof bundles, chosen by the mainnet flag.\<close>

datatype ClaimData =
    ClaimFromMainnnet AgglayerL1InfoTreeLeaf MerkleProof MerkleProof
  | ClaimFromRollup AgglayerL1InfoTreeLeaf MerkleProof MerkleProof MerkleProof

record ImportedBridgeExit =
  ibe_BridgeExit :: BridgeExit
  ibe_GlobalIndex :: GlobalIndex
  ibe_ClaimData :: "ClaimData option"

record Certificate =
  cert_NetworkID :: u32
  cert_PrevLocalExitRoot :: Hash
  cert_NewLocalExitRoot :: Hash
  cert_BridgeExits :: "BridgeExit list"
  cert_ImportedBridgeExits :: "ImportedBridgeExit list"
  cert_Height :: u64
  cert_Metadata :: Hash

record Signature =
  sig_R :: Hash
  sig_S :: Hash
  sig_OddParity :: bool

record SignedCertificate =
  sc_Certificate :: Certificate
  sc_Signature :: Signature

section \<open>Configuration and collaborators\<close>

text \<open>The fields of \<open>aggsender.Config\<close> that decide control flow.\<close>

record Config =
  cfg_MaxCertSize :: u64
  cfg_MaxRetriesStoreCertificate :: "64 word"
  cfg_BridgeMetadataAsHash :: bool
  cfg_DryRun :: bool

text \<open>
  The collaborators of the sender are interfaces (the L2 bridge syncer, the L1 info tree
  syncer, the store, the client of the remote authority, the database transaction of the
  exit tree) and functions of libraries whose code is not part of the sources. An \<open>Env\<close>
  holds, for one operation of the sender, what each of their calls returns. The store's
  \<open>SaveLastSentCertificate\<close> also takes the number of calls made before it in the
  operation, so that successive attempts can differ.
\<close>

record Env =
  e_GetLastProcessedBlock :: "error + u64"
  e_GetBridgesPublished :: "u64 \<Rightarrow> u64 \<Rightarrow> error + Bridge list"
  e_GetClaims :: "u64 \<Rightarrow> u64 \<Rightarrow> error + Claim list"
  e_GetExitRootByIndex :: "u32 \<Rightarrow> error + Hash"
  e_OriginNetwork :: u32
  e_GetInfoByGlobalExitRoot :: "Hash \<Rightarrow> error + L1InfoTreeLeaf"
  e_GetL1InfoTreeRootByIndex :: "u32 \<Rightarrow> error + Hash"
  e_GetL1InfoTreeMerkleProofFromIndexToRoot :: "u32 \<Rightarrow> Hash \<Rightarrow> error + Hash list"
  e_GetLastSentCertificate :: "error + CertificateInfo option"
  e_GetCertificateByHeight :: "u64 \<Rightarrow> error + CertificateInfo option"
  e_GetCertificatesByStatus :: "CertificateStatus list \<Rightarrow> error + CertificateInfo list"
  e_SaveLastSentCertificate :: "nat \<Rightarrow> CertificateInfo \<Rightarrow> error option"
  e_UpdateCertificate :: "CertificateInfo \<Rightarrow> error option"
  e_SendCertificate :: "SignedCertificate \<Rightarrow> error + Hash"
  e_GetCertificateHeader :: "Hash \<Rightarrow> error + CertificateHeader"
  e_GetLatestKnownCertificateHeader :: "u32 \<Rightarrow> error + CertificateHeader option"
  e_NewTx :: "error option"
  e_AddLeaf :: "u32 \<Rightarrow> Hash \<Rightarrow> error option"
  e_QueryRoot :: "u32 \<Rightarrow> error + Hash"
  e_Rollback :: "error option"
  e_now :: u32
  e_EstimatedSize :: "CertificateBuildParams \<Rightarrow> u64"
  e_MaxDepositCount :: "CertificateBuildParams \<Rightarrow> u32"
  e_Keccak256 :: "byte list \<Rightarrow> byte list"
  e_BridgeHash :: "Bridge \<Rightarrow> Hash"
  e_BridgeExitHash :: "BridgeExit \<Rightarrow> Hash"
  e_DecodeGlobalIndex :: "int \<Rightarrow> error + (bool \<times> u32 \<times> u32)"
  e_CalculateRoot :: "Hash \<Rightarrow> Hash list \<Rightarrow> u32 \<Rightarrow> Hash"
  e_MetadataToHash :: "u64 \<Rightarrow> u32 \<Rightarrow> u32 \<Rightarrow> Hash"
  e_NewCertificateMetadataFromHash :: "Hash \<Rightarrow> CertificateMetadata"
  e_HashToSign :: "Certificate \<Rightarrow> Hash"
  e_Sign :: "Hash \<Rightarrow> error + byte list"
  e_Marshal :: "SignedCertificate \<Rightarrow> error + string"

text \<open>The calls that write to the store, as a call made with its argument.\<close>

datatype StorageWrite =
    SaveLastSentCertificate CertificateInfo
  | UpdateCertificate CertificateInfo

section \<open>Certificate Builder\<close>

definition convertBridgeMetadata :: "(byte list \<Rightarrow> byte list) \<Rightarrow> byte list \<Rightarrow> bool \<Rightarrow> byte list \<times> bool" where
  "convertBridgeMetadata Keccak256 metadata importedBridgeMetadataAsHash =
     (if importedBridgeMetadataAsHash \<and> length metadata > 0 then (Keccak256 metadata, True)
      else (metadata, False))"

definition bridgeExitOf :: "Config \<Rightarrow> Env \<Rightarrow> Bridge \<Rightarrow> BridgeExit" where
  "bridgeExitOf cfg env bridge =
     (let (metaData, isMetadataHashed) =
            convertBridgeMetadata (e_Keccak256 env) (b_Metadata bridge) (cfg_BridgeMetadataAsHash cfg)
      in \<lparr>be_LeafType = b_LeafType bridge,
          be_TokenInfo = \<lparr>ti_OriginNetwork = b_OriginNetwork bridge,
                          ti_OriginTokenAddress = b_OriginAddress bridge\<rparr>,
          be_DestinationNetwork = b_DestinationNetwork bridge,
          be_DestinationAddress = b_DestinationAddress bridge,
          be_Amount = b_Amount bridge,
          be_IsMetadataHashed = isMetadataHashed,
          be_Metadata = metaData\<rparr>)"

definition getBridgeExits :: "Config \<Rightarrow> Env \<Rightarrow> Bridge list \<Rightarrow> BridgeExit list" where
  "getBridgeExits cfg env bridges = map (bridgeExitOf cfg env) bridges"

definition LeafTypeAsset :: byte where
  "LeafTypeAsset = 0"

definition LeafTypeMessage :: byte where
  "LeafTypeMessage = 1"

definition convertClaimToImportedBridgeExit :: "Config \<Rightarrow> Env \<Rightarrow> Claim \<Rightarrow> error + ImportedBridgeExit" where
  "convertClaimToImportedBridgeExit cfg env claim =
     (let leafType = (if cl_IsMessage claim then LeafTypeMessage else LeafTypeAsset);
          (metaData, isMetadataIsHashed) =
            convertBridgeMetadata (e_Keccak256 env) (cl_Metadata claim) (cfg_BridgeMetadataAsHash cfg);
          bridgeExit = \<lparr>be_LeafType = leafType,
                        be_TokenInfo = \<lparr>ti_OriginNetwork = cl_OriginNetwork claim,
                                        ti_OriginTokenAddress = cl_OriginAddress claim\<rparr>,
                        be_DestinationNetwork = cl_DestinationNetwork claim,
                        be_DestinationAddress = cl_DestinationAddress claim,
                        be_Amount = cl_Amount claim,
                        be_IsMetadataHashed = isMetadataIsHashed,
                        be_Metadata = metaData\<rparr>
      in case e_DecodeGlobalIndex env (cl_GlobalIndex claim) of
           Inl err \<Rightarrow> Inl (Errorf ''error decoding global index'' (Some err))
         | Inr (mainnetFlag, rollupIndex, leafIndex) \<Rightarrow>
             Inr \<lparr>ibe_BridgeExit = bridgeExit,
                  ibe_GlobalIndex = \<lparr>gi_MainnetFlag = mainnetFlag, gi_RollupIndex = rollupIndex,
                                      gi_LeafIndex = leafIndex\<rparr>,
                  ibe_ClaimData = None\<rparr>)"

text \<open>The first loop of \<open>getImportedBridgeExits\<close>: the L1 info of every claim.\<close>

fun claimL1Infos :: "Env \<Rightarrow> Claim list \<Rightarrow> error + L1InfoTreeLeaf list" where
  "claimL1Infos env [] = Inr []"
| "claimL1Infos env (claim # claims) =
     (case e_GetInfoByGlobalExitRoot env (cl_GlobalExitRoot claim) of
        Inl err \<Rightarrow> Inl (Errorf ''error getting info by global exit root'' (Some err))
      | Inr info \<Rightarrow>
          (case claimL1Infos env claims of
             Inl err \<Rightarrow> Inl err
           | Inr infos \<Rightarrow> Inr (info # infos)))"

definition greatestL1InfoTreeIndexUsed :: "L1InfoTreeLeaf list \<Rightarrow> u32" where
  "greatestL1InfoTreeIndexUsed infos =
     foldl (\<lambda>greatest info. if l1_L1InfoTreeIndex info > greatest then l1_L1InfoTreeIndex info else greatest)
       0 infos"

definition claimDataOf :: "Env \<Rightarrow> Claim \<Rightarrow> L1InfoTreeLeaf \<Rightarrow> ImportedBridgeExit \<Rightarrow> Hash \<Rightarrow> Hash list \<Rightarrow> ClaimData" where
  "claimDataOf env claim l1Info ibe rootToProve gerToL1Proof =
     (let l1Leaf = \<lparr>al_L1InfoTreeIndex = l1_L1InfoTreeIndex l1Info,
                    al_RollupExitRoot = cl_RollupExitRoot claim,
                    al_MainnetExitRoot = cl_MainnetExitRoot claim,
                    al_Inner = \<lparr>li_GlobalExitRoot = l1_GlobalExitRoot l1Info,
                                li_Timestamp = l1_Timestamp l1Info,
                                li_BlockHash = l1_PreviousBlockHash l1Info\<rparr>\<rparr>;
          proofGERToL1Root = \<lparr>mp_Root = rootToProve, mp_Proof = gerToL1Proof\<rparr>
      in if gi_MainnetFlag (ibe_GlobalIndex ibe) then
           ClaimFromMainnnet l1Leaf
             \<lparr>mp_Root = cl_MainnetExitRoot claim, mp_Proof = cl_ProofLocalExitRoot claim\<rparr>
             proofGERToL1Root
         else
           ClaimFromRollup l1Leaf
             \<lparr>mp_Root = e_CalculateRoot env (e_BridgeExitHash env (ibe_BridgeExit ibe))
                          (cl_ProofLocalExitRoot claim) (gi_LeafIndex (ibe_GlobalIndex ibe)),
              mp_Proof = cl_ProofLocalExitRoot claim\<rparr>
             \<lparr>mp_Root = cl_RollupExitRoot claim, mp_Proof = cl_ProofRollupExitRoot claim\<rparr>
             proofGERToL1Root)"

text \<open>The second loop: one imported bridge exit per claim, with its proofs.\<close>

fun importedExits :: "Config \<Rightarrow> Env \<Rightarrow> Hash \<Rightarrow> (Claim \<times> L1InfoTreeLeaf) list \<Rightarrow> error + ImportedBridgeExit list" where
  "importedExits cfg env rootToProve [] = Inr []"
| "importedExits cfg env rootToProve ((claim, l1Info) # rest) =
     (case convertClaimToImportedBridgeExit cfg env claim of
        Inl err \<Rightarrow> Inl (Errorf ''error converting claim to imported bridge exit'' (Some err))
      | Inr ibe \<Rightarrow>
          (case e_GetL1InfoTreeMerkleProofFromIndexToRoot env (l1_L1InfoTreeIndex l1Info) rootToProve of
             Inl err \<Rightarrow> Inl (Errorf ''error getting L1 Info tree merkle proof'' (Some err))
           | Inr gerToL1Proof \<Rightarrow>
               (case importedExits cfg env rootToProve rest of
                  Inl err \<Rightarrow> Inl err
                | Inr ibes \<Rightarrow>
                    Inr (ibe\<lparr>ibe_ClaimData := Some (claimDataOf env claim l1Info ibe rootToProve gerToL1Proof)\<rparr>
                         # ibes))))"

definition getImportedBridgeExits :: "Config \<Rightarrow> Env \<Rightarrow> Claim list \<Rightarrow> error + ImportedBridgeExit list" where
  "getImportedBridgeExits cfg env claims =
     (if claims = [] then Inr []
      else
        (case claimL1Infos env claims of
           Inl err \<Rightarrow> Inl err
         | Inr claimL1Info \<Rightarrow>
             (case e_GetL1InfoTreeRootByIndex env (greatestL1InfoTreeIndexUsed claimL1Info) of
                Inl err \<Rightarrow> Inl (Errorf ''error getting L1 Info tree root by index'' (Some err))
              | Inr rootToProve \<Rightarrow> importedExits cfg env rootToProve (zip claims claimL1Info))))"

text \<open>
  \<open>GetRootByIndex\<close> reads the root at a position through the open transaction; a query with
  no row is reported as "not found".
\<close>

definition sqlErrNoRows :: error where
  "sqlErrNoRows = Errorf ''sql: no rows in result set'' None"

definition GetRootByIndex :: "Env \<Rightarrow> u32 \<Rightarrow> error + Hash" where
  "GetRootByIndex env index =
     (case e_QueryRoot env index of
        Inl err \<Rightarrow> if err = sqlErrNoRows then Inl (Errorf ''not found'' None) else Inl err
      | Inr root \<Rightarrow> Inr root)"

definition fakeBridge :: "u32 \<Rightarrow> Bridge" where
  "fakeBridge prevDepositCount =
     \<lparr>b_BlockNum = 0, b_BlockPos = 0, b_LeafType = 0, b_OriginNetwork = 0,
      b_OriginAddress = replicate 20 0, b_DestinationNetwork = 0,
      b_DestinationAddress =
        [0xf3, 0x9F, 0xd6, 0xe5, 0x1a, 0xad, 0x88, 0xF6, 0xF4, 0xce,
         0x6a, 0xB8, 0x82, 0x72, 0x79, 0xcf, 0xfF, 0xb9, 0x22, 0x66],
      b_Amount = 1000, b_Metadata = [], b_DepositCount = prevDepositCount + 1\<rparr>"

text \<open>
  The exit-root step of \<open>buildCertificate\<close>: with \<open>addFakeBridge\<close>, a leaf for a synthetic
  bridge is added inside a transaction that is rolled back on every path; otherwise the
  syncer gives the root at the greatest deposit count of the range.
\<close>

definition exitRootAndBridgeExits ::
  "Config \<Rightarrow> Env \<Rightarrow> CertificateBuildParams \<Rightarrow> bool \<Rightarrow> BridgeExit list \<Rightarrow> error + (Hash \<times> BridgeExit list)" where
  "exitRootAndBridgeExits cfg env certParams addFakeBridge bridgeExits =
     (if addFakeBridge then
        (case e_NewTx env of
           Some err \<Rightarrow> Inl err
         | None \<Rightarrow>
             (let fb = fakeBridge (e_MaxDepositCount env certParams)
              in case e_AddLeaf env (b_DepositCount fb) (e_BridgeHash env fb) of
                   Some err \<Rightarrow>
                     (case e_Rollback env of Some errRollBack \<Rightarrow> Inl errRollBack | None \<Rightarrow> Inl err)
                 | None \<Rightarrow>
                     (case GetRootByIndex env (b_DepositCount fb) of
                        Inl err \<Rightarrow>
                          (case e_Rollback env of Some errRollBack \<Rightarrow> Inl errRollBack | None \<Rightarrow> Inl err)
                      | Inr exitRoot \<Rightarrow>
                          (case e_Rollback env of
                             Some err \<Rightarrow> Inl err
                           | None \<Rightarrow> Inr (exitRoot, bridgeExits @ [bridgeExitOf cfg env fb])))))
      else
        (case e_GetExitRootByIndex env (e_MaxDepositCount env certParams) of
           Inl err \<Rightarrow> Inl (Errorf ''error getting exit root by index'' (Some err))
         | Inr exitRoot \<Rightarrow> Inr (exitRoot, bridgeExits)))"

definition buildCertificate ::
  "Config \<Rightarrow> Env \<Rightarrow> CertificateBuildParams \<Rightarrow> CertificateInfo option \<Rightarrow> bool \<Rightarrow> error + Certificate" where
  "buildCertificate cfg env certParams lastSentCertificateInfo addFakeBridge =
     (if IsEmpty certParams then Inl errNoBridgesAndClaims
      else
        (case getImportedBridgeExits cfg env (p_Claims certParams) of
           Inl err \<Rightarrow> Inl (Errorf ''error getting imported bridge exits'' (Some err))
         | Inr importedBridgeExits \<Rightarrow>
             (case exitRootAndBridgeExits cfg env certParams addFakeBridge
                     (getBridgeExits cfg env (p_Bridges certParams)) of
                Inl err \<Rightarrow> Inl err
              | Inr (exitRoot, bridgeExits) \<Rightarrow>
                  (case getNextHeightAndPreviousLER (e_GetCertificateByHeight env) lastSentCertificateInfo of
                     Inl err \<Rightarrow> Inl (Errorf ''error getting next height and previous LER'' (Some err))
                   | Inr (height, previousLER) \<Rightarrow>
                       Inr \<lparr>cert_NetworkID = e_OriginNetwork env,
                            cert_PrevLocalExitRoot = previousLER,
                            cert_NewLocalExitRoot = exitRoot,
                            cert_BridgeExits = bridgeExits,
                            cert_ImportedBridgeExits = importedBridgeExits,
                            cert_Height = height,
                            cert_Metadata =
                              e_MetadataToHash env (p_FromBlock certParams)
                                (ucast (p_ToBlock certParams - p_FromBlock certParams))
                                (p_CreatedAt certParams)\<rparr>))))"

section \<open>Signer\<close>

definition signCertificate :: "Env \<Rightarrow> Certificate \<Rightarrow> error + SignedCertificate" where
  "signCertificate env certificate =
     (case e_Sign env (e_HashToSign env certificate) of
        Inl err \<Rightarrow> Inl err
      | Inr sig \<Rightarrow>
          (case extractSignatureData sig of
             Inl err \<Rightarrow> Inl err
           | Inr (r, s, isOddParity) \<Rightarrow>
               Inr \<lparr>sc_Certificate = certificate,
                    sc_Signature = \<lparr>sig_R = r, sig_S = s, sig_OddParity = isOddParity\<rparr>\<rparr>))"

section \<open>Persisting the sent certificate\<close>

text \<open>
  \<open>saveCertificateToStorage\<close>. The loop may run forever, so it is a partial function: the
  value \<open>None\<close> means that it never returns. \<open>save i\<close> is what the call number \<open>i\<close>
  (counted from 0) of \<open>SaveLastSentCertificate\<close> returns; \<open>retries\<close> is the source's
  counter, a Go \<open>int\<close>. The result is the error returned, with the number of calls made.
  The pause between attempts has no effect on the result and is left out.
\<close>

partial_function (option) saveCertificateToStorageLoop ::
  "(nat \<Rightarrow> error option) \<Rightarrow> 64 word \<Rightarrow> 64 word \<Rightarrow> nat \<Rightarrow> (error option \<times> nat) option" where
  "saveCertificateToStorageLoop save maxRetries retries calls =
     (case save calls of
        None \<Rightarrow> Some (None, Suc calls)
      | Some err \<Rightarrow>
          if retries = maxRetries
          then Some (Some (Errorf ''error saving last sent certificate in db'' (Some err)), Suc calls)
          else saveCertificateToStorageLoop save maxRetries (retries + 1) (Suc calls))"

definition saveCertificateToStorage ::
  "(nat \<Rightarrow> error option) \<Rightarrow> 64 word \<Rightarrow> (error option \<times> nat) option" where
  "saveCertificateToStorage save maxRetries = saveCertificateToStorageLoop save maxRetries 1 0"

section \<open>Submission: one certificate\<close>

text \<open>
  What a call of \<open>sendCertificate\<close> does: the pair it returns (a signed certificate, nil
  for a tick with nothing to send, or an error), the certificates it handed to the remote
  authority's \<open>SendCertificate\<close> with what the remote answered, the record it handed to
  \<open>saveCertificateToStorage\<close> with the number of store calls made, and whether it ended
  the process (single-certificate mode).
\<close>

record SendResult =
  sr_return :: "error + SignedCertificate option"
  sr_sent :: "(SignedCertificate \<times> (error + Hash)) list"
  sr_stored :: "(CertificateInfo \<times> nat) option"
  sr_exit :: bool

definition returned ::
  "error + SignedCertificate option \<Rightarrow> (SignedCertificate \<times> (error + Hash)) list \<Rightarrow> SendResult" where
  "returned r sent = \<lparr>sr_return = r, sr_sent = sent, sr_stored = None, sr_exit = False\<rparr>"

text \<open>
  \<open>sendCertificate\<close>. The result is \<open>None\<close> when the call never returns, which happens
  only inside \<open>saveCertificateToStorage\<close>. A nil result of \<open>limitCertSize\<close> would be read
  through by the next statement. Writing the certificate to a file is best-effort, has no
  effect on the result and is left out.
\<close>

definition sendCertificate :: "Config \<Rightarrow> Env \<Rightarrow> bool \<Rightarrow> bool \<Rightarrow> bool \<Rightarrow> bool \<Rightarrow> SendResult option" where
  "sendCertificate cfg env emptyCert addFakeBridge storeCertificate singleCert =
     (case e_GetLastProcessedBlock env of
        Inl err \<Rightarrow> Some (returned (Inl (Errorf ''error getting last processed block from l2'' (Some err))) [])
      | Inr lastL2BlockSynced \<Rightarrow>
     (case e_GetLastSentCertificate env of
        Inl err \<Rightarrow> Some (returned (Inl err) [])
      | Inr lastSentCertificateInfo \<Rightarrow>
     (let (previousToBlock, retryCount) = getLastSentBlockAndRetryCount lastSentCertificateInfo
      in if previousToBlock \<ge> lastL2BlockSynced then Some (returned (Inr None) [])
         else
     (let fromBlock = previousToBlock + 1;
          toBlock = lastL2BlockSynced
      in case e_GetBridgesPublished env fromBlock toBlock of
           Inl err \<Rightarrow> Some (returned (Inl (Errorf ''error getting bridges'' (Some err))) [])
         | Inr bridges \<Rightarrow>
     if length bridges = 0 then Some (returned (Inr None) [])
     else
     (case e_GetClaims env fromBlock toBlock of
        Inl err \<Rightarrow> Some (returned (Inl (Errorf ''error getting claims'' (Some err))) [])
      | Inr claims \<Rightarrow>
     (case limitCertSize (e_EstimatedSize env) (cfg_MaxCertSize cfg)
             \<lparr>p_FromBlock = fromBlock, p_ToBlock = toBlock, p_Bridges = bridges,
              p_Claims = claims, p_CreatedAt = e_now env\<rparr> of
        Inl err \<Rightarrow> Some (returned (Inl (Errorf ''error limitCertSize'' (Some err))) [])
      | Inr None \<Rightarrow> Some (returned (Inl PanicNilDereference) [])
      | Inr (Some certificateParams) \<Rightarrow>
     (case buildCertificate cfg env certificateParams lastSentCertificateInfo addFakeBridge of
        Inl err \<Rightarrow> Some (returned (Inl (Errorf ''error building certificate'' (Some err))) [])
      | Inr builtCertificate \<Rightarrow>
     (let certificate =
            (if emptyCert
             then builtCertificate\<lparr>cert_BridgeExits := [], cert_ImportedBridgeExits := []\<rparr>
             else builtCertificate)
      in case signCertificate env certificate of
           Inl err \<Rightarrow> Some (returned (Inl (Errorf ''error signing certificate'' (Some err))) [])
         | Inr signedCertificate \<Rightarrow>
     if cfg_DryRun cfg then Some (returned (Inr (Some signedCertificate)) [])
     else
     (case e_SendCertificate env signedCertificate of
        Inl err \<Rightarrow>
          Some (returned (Inl (Errorf ''error sending certificate'' (Some err)))
                  [(signedCertificate, Inl err)])
      | Inr certificateHash \<Rightarrow>
     (case e_Marshal env signedCertificate of
        Inl err \<Rightarrow>
          Some (returned (Inl (Errorf ''error marshalling signed certificate'' (Some err)))
                  [(signedCertificate, Inr certificateHash)])
      | Inr raw \<Rightarrow>
     if \<not> storeCertificate
     then Some (returned (Inr (Some signedCertificate)) [(signedCertificate, Inr certificateHash)])
     else
     (let certInfo =
            \<lparr>ci_Height = cert_Height certificate,
             ci_RetryCount = retryCount,
             ci_CertificateID = certificateHash,
             ci_NewLocalExitRoot = cert_NewLocalExitRoot certificate,
             ci_PreviousLocalExitRoot = Some (BytesToHash (cert_PrevLocalExitRoot certificate)),
             ci_FromBlock = fromBlock,
             ci_ToBlock = toBlock,
             ci_Status = Pending,
             ci_CreatedAt = p_CreatedAt certificateParams,
             ci_UpdatedAt = p_CreatedAt certificateParams,
             ci_SignedCertificate = raw\<rparr>
      in case saveCertificateToStorage (\<lambda>i. e_SaveLastSentCertificate env i certInfo)
                (cfg_MaxRetriesStoreCertificate cfg) of
           None \<Rightarrow> None
         | Some (Some err, calls) \<Rightarrow>
             Some \<lparr>sr_return = Inl (Errorf ''error saving last sent certificate in db'' (Some err)),
                   sr_sent = [(signedCertificate, Inr certificateHash)], sr_stored = Some (certInfo, calls),
                   sr_exit = False\<rparr>
         | Some (None, calls) \<Rightarrow>
             Some \<lparr>sr_return = Inr (Some signedCertificate),
                   sr_sent = [(signedCertificate, Inr certificateHash)], sr_stored = Some (certInfo, calls),
                   sr_exit = singleCert\<rparr>)))))))))))"

section \<open>Status polling and the Submission Loop\<close>

text \<open>
  \<open>updateCertificateStatus\<close> writes through the pointer \<open>localCert\<close>; the model returns the
  record as it is after the call, the error, and the store writes made.
\<close>

definition updateCertificateStatus ::
  "Env \<Rightarrow> CertificateInfo \<Rightarrow> CertificateHeader \<Rightarrow> CertificateInfo \<times> error option \<times> StorageWrite list" where
  "updateCertificateStatus env localCert agglayerCert =
     (if ci_Status localCert = ch_Status agglayerCert then (localCert, None, [])
      else
        (let localCert' = localCert\<lparr>ci_Status := ch_Status agglayerCert, ci_UpdatedAt := e_now env\<rparr>
         in case e_UpdateCertificate env localCert' of
              Some err \<Rightarrow>
                (localCert', Some (Errorf ''error updating certificate'' (Some err)),
                 [UpdateCertificate localCert'])
            | None \<Rightarrow> (localCert', None, [UpdateCertificate localCert'])))"

text \<open>
  The loop of \<open>checkPendingCertificatesStatus\<close> over the certificates the store returned;
  \<open>thereArePendingCerts\<close> is the loop's flag.
\<close>

fun checkPendingLoop :: "Env \<Rightarrow> CertificateInfo list \<Rightarrow> bool \<Rightarrow> bool \<times> StorageWrite list" where
  "checkPendingLoop env [] thereArePendingCerts = (thereArePendingCerts, [])"
| "checkPendingLoop env (certificate # rest) thereArePendingCerts =
     (case e_GetCertificateHeader env (ci_CertificateID certificate) of
        Inl err \<Rightarrow> (True, [])
      | Inr certificateHeader \<Rightarrow>
          (case updateCertificateStatus env certificate certificateHeader of
             (certificate', Some err, writes) \<Rightarrow> (True, writes)
           | (certificate', None, writes) \<Rightarrow>
               (let (r, writes') =
                      checkPendingLoop env rest
                        (if \<not> IsClosed (ci_Status certificate') then True else thereArePendingCerts)
                in (r, writes @ writes'))))"

definition checkPendingCertificatesStatus :: "Env \<Rightarrow> bool \<times> StorageWrite list" where
  "checkPendingCertificatesStatus env =
     (case e_GetCertificatesByStatus env NonSettledStatuses of
        Inl err \<Rightarrow> (True, [])
      | Inr pendingCertificates \<Rightarrow> checkPendingLoop env pendingCertificates False)"

text \<open>
  One tick of \<open>sendCertificates\<close>: the pending check, then \<open>sendCertificate\<close> unless
  certificates are pending.
\<close>

record TickResult =
  t_thereArePendingCerts :: bool
  t_writes :: "StorageWrite list"
  t_send :: "SendResult option"

definition tick :: "Config \<Rightarrow> bool \<Rightarrow> bool \<Rightarrow> bool \<Rightarrow> bool \<Rightarrow> Env \<Rightarrow> TickResult option" where
  "tick cfg emptyCert addFakeBridge storeCertificate singleCert env =
     (let (thereArePendingCerts, writes) = checkPendingCertificatesStatus env
      in if \<not> thereArePendingCerts then
           (case sendCertificate cfg env emptyCert addFakeBridge storeCertificate singleCert of
              None \<Rightarrow> None
            | Some r \<Rightarrow>
                Some \<lparr>t_thereArePendingCerts = False, t_writes = writes, t_send = Some r\<rparr>)
         else Some \<lparr>t_thereArePendingCerts = True, t_writes = writes, t_send = None\<rparr>)"

text \<open>
  \<open>sendCertificates\<close>: the ticks that arrive before the context is cancelled, each with the
  environment found at that tick. The loop ends at the cancellation (the end of the list), or
  earlier when single-certificate mode ends the process; it does not return (\<open>None\<close>) when a
  tick does not.
\<close>

fun sendCertificates :: "Config \<Rightarrow> bool \<Rightarrow> bool \<Rightarrow> bool \<Rightarrow> bool \<Rightarrow> Env list \<Rightarrow> TickResult list option" where
  "sendCertificates cfg emptyCert addFakeBridge storeCertificate singleCert [] = Some []"
| "sendCertificates cfg emptyCert addFakeBridge storeCertificate singleCert (env # envs) =
     (case tick cfg emptyCert addFakeBridge storeCertificate singleCert env of
        None \<Rightarrow> None
      | Some r \<Rightarrow>
          if (case t_send r of Some sr \<Rightarrow> sr_exit sr | None \<Rightarrow> False) then Some [r]
          else
            (case sendCertificates cfg emptyCert addFakeBridge storeCertificate singleCert envs of
               None \<Rightarrow> None
             | Some rs \<Rightarrow> Some (r # rs)))"

section \<open>Reconciliation\<close>

definition NewCertificateInfoFromAgglayerCertHeader ::
  "u32 \<Rightarrow> (Hash \<Rightarrow> CertificateMetadata) \<Rightarrow> CertificateHeader option \<Rightarrow> CertificateInfo option" where
  "NewCertificateInfoFromAgglayerCertHeader now NewCertificateMetadataFromHash c =
     (case c of
        None \<Rightarrow> None
      | Some c \<Rightarrow>
          (let meta = NewCertificateMetadataFromHash (ch_Metadata c);
               legacy = (m_Version meta < 1);
               toBlock = (if legacy then m_ToBlock meta else m_FromBlock meta + ucast (m_Offset meta));
               createdAt = (if legacy then now else m_CreatedAt meta)
           in Some \<lparr>ci_Height = ch_Height c,
                    ci_RetryCount = 0,
                    ci_CertificateID = ch_CertificateID c,
                    ci_NewLocalExitRoot = ch_NewLocalExitRoot c,
                    ci_PreviousLocalExitRoot =
                      (case ch_PreviousLocalExitRoot c of None \<Rightarrow> None | Some ler \<Rightarrow> Some ler),
                    ci_FromBlock = m_FromBlock meta,
                    ci_ToBlock = toBlock,
                    ci_Status = ch_Status c,
                    ci_CreatedAt = createdAt,
                    ci_UpdatedAt = now,
                    ci_SignedCertificate = ''na/agglayer header''\<rparr>))"

text \<open>
  \<open>updateLocalStorageWithAggLayerCert\<close> returns the synthesized record together with what
  the store's \<open>SaveLastSentCertificate\<close> returned. Both callers pass a header they have
  checked against nil; with a nil header the nil record would be read through.
\<close>

definition updateLocalStorageWithAggLayerCert ::
  "Env \<Rightarrow> CertificateHeader option \<Rightarrow> CertificateInfo option \<times> error option" where
  "updateLocalStorageWithAggLayerCert env aggLayerCert =
     (case NewCertificateInfoFromAgglayerCertHeader (e_now env) (e_NewCertificateMetadataFromHash env)
             aggLayerCert of
        None \<Rightarrow> (None, Some PanicNilDereference)
      | Some certInfo \<Rightarrow> (Some certInfo, e_SaveLastSentCertificate env 0 certInfo))"

text \<open>
  \<open>checkLastCertificateFromAgglayer\<close>: the error returned (\<open>None\<close> for nil) and the store
  writes made, in order.
\<close>

definition checkLastCertificateFromAgglayer :: "Env \<Rightarrow> error option \<times> StorageWrite list" where
  "checkLastCertificateFromAgglayer env =
     (case e_GetLatestKnownCertificateHeader env (e_OriginNetwork env) of
        Inl err \<Rightarrow>
          (Some (Errorf ''recovery: error getting latest known certificate header from agglayer'' (Some err)), [])
      | Inr aggLayerLastCert \<Rightarrow>
     (case e_GetLastSentCertificate env of
        Inl err \<Rightarrow>
          (Some (Errorf ''recovery: error getting last sent certificate from local storage'' (Some err)), [])
      | Inr localLastCert \<Rightarrow>
     (case (localLastCert, aggLayerLastCert) of
        (None, None) \<Rightarrow> (None, [])
      | (None, Some R) \<Rightarrow>
          (case updateLocalStorageWithAggLayerCert env (Some R) of
             (certInfo, Some err) \<Rightarrow>
               (Some (Errorf ''recovery: error updating local storage with agglayer certificate'' (Some err)),
                map SaveLastSentCertificate (case certInfo of None \<Rightarrow> [] | Some ci \<Rightarrow> [ci]))
           | (certInfo, None) \<Rightarrow>
               (None, map SaveLastSentCertificate (case certInfo of None \<Rightarrow> [] | Some ci \<Rightarrow> [ci])))
      | (Some L, None) \<Rightarrow>
          (Some (Errorf ''recovery: certificate exists in storage but not in agglayer. Inconsistency'' None), [])
      | (Some L, Some R) \<Rightarrow>
          if ch_Height R < ci_Height L then
            (Some (Errorf ''recovery: the last certificate in the agglayer has less height than the one in the local storage'' None), [])
          else
            (let (localLastCert', err, saves) =
                   (if ch_Height R = ci_Height L + 1 then
                      (case updateLocalStorageWithAggLayerCert env (Some R) of
                         (certInfo, err) \<Rightarrow>
                           (certInfo, err,
                            map SaveLastSentCertificate (case certInfo of None \<Rightarrow> [] | Some ci \<Rightarrow> [ci])))
                    else (Some L, None, []))
             in case err of
                  Some err \<Rightarrow> (Some (Errorf ''recovery: error updating certificate'' (Some err)), saves)
                | None \<Rightarrow>
                    (case localLastCert' of
                       None \<Rightarrow> (Some PanicNilDereference, saves)
                     | Some L' \<Rightarrow>
                         if ci_CertificateID L' \<noteq> ch_CertificateID R then
                           (Some (Errorf ''recovery: mismatch between local and agglayer certificates'' None), saves)
                         else
                           (case updateCertificateStatus env L' R of
                              (_, Some err, writes) \<Rightarrow>
                                (Some (Errorf ''recovery: error updating certificate status'' (Some err)),
                                 saves @ writes)
                            | (_, None, writes) \<Rightarrow> (None, saves @ writes)))))))"

text \<open>
  \<open>checkInitialStatus\<close> retries the check until it succeeds or the context is cancelled
  during the wait that follows a failed attempt. \<open>envs i\<close> is the environment of attempt
  \<open>i\<close>, \<open>cancelled i\<close> tells whether the cancellation arrives in the wait after it. The
  result is the number of failed attempts, with \<open>True\<close> when the last attempt succeeded;
  \<open>None\<close> means that the loop never ends.
\<close>

partial_function (option) checkInitialStatus ::
  "(nat \<Rightarrow> Env) \<Rightarrow> (nat \<Rightarrow> bool) \<Rightarrow> nat \<Rightarrow> (nat \<times> bool) option" where
  "checkInitialStatus envs cancelled i =
     (case fst (checkLastCertificateFromAgglayer (envs i)) of
        None \<Rightarrow> Some (i, True)
      | Some err \<Rightarrow>
          if cancelled i then Some (i, False)
          else checkInitialStatus envs cancelled (Suc i))"

text \<open>
  \<open>Start\<close>: the initial check, then the Submission Loop. After a cancellation during the
  initial check the loop is entered with the context already done, so that it handles no
  tick.
\<close>

definition Start ::
  "Config \<Rightarrow> bool \<Rightarrow> bool \<Rightarrow> bool \<Rightarrow> bool \<Rightarrow> (nat \<Rightarrow> Env) \<Rightarrow> (nat \<Rightarrow> bool) \<Rightarrow> Env list \<Rightarrow>
   TickResult list option" where
  "Start cfg emptyCert addFakeBridge storeCertificate singleCert envs cancelled ticks =
     (case checkInitialStatus envs cancelled 0 of
        None \<Rightarrow> None
      | Some (attempts, checked) \<Rightarrow>
          sendCertificates cfg emptyCert addFakeBridge storeCertificate singleCert
            (if checked then ticks else []))"

section \<open>Concrete inputs\<close>

text \<open>A last sent certificate in error at height 5, and a store that holds a settled one at 4.\<close>

definition certA :: CertificateInfo where
  "certA = \<lparr>ci_Height = 5, ci_RetryCount = 2, ci_CertificateID = replicate 32 1,
            ci_NewLocalExitRoot = replicate 32 2, ci_PreviousLocalExitRoot = None,
            ci_FromBlock = 10, ci_ToBlock = 20, ci_Status = InError,
            ci_CreatedAt = 100, ci_UpdatedAt = 100, ci_SignedCertificate = ''''\<rparr>"

definition storeA :: "u64 \<Rightarrow> error + CertificateInfo option" where
  "storeA h = (if h = 4 then Inr (Some (certA\<lparr>ci_Height := 4, ci_Status := Settled,
                                               ci_NewLocalExitRoot := replicate 32 9\<rparr>))
               else Inr None)"


text \<open>A store whose first two writes fail and whose third succeeds.\<close>

definition saveA :: "nat \<Rightarrow> error option" where
  "saveA i = (if i < 2 then Some (External 7) else None)"


text \<open>
  Build parameters for the Size Governor, with a size function that counts the bridge and
  claim events: \<open>paramsB\<close> has both its bridge events in its last block, \<open>paramsC\<close> has one
  bridge event in each of its three blocks.
\<close>

definition bridgeAt :: "u64 \<Rightarrow> Bridge" where
  "bridgeAt n =
     \<lparr>b_BlockNum = n, b_BlockPos = 0, b_LeafType = 0, b_OriginNetwork = 0,
      b_OriginAddress = replicate 20 0, b_DestinationNetwork = 1,
      b_DestinationAddress = replicate 20 1, b_Amount = 10, b_Metadata = [],
      b_DepositCount = 0\<rparr>"

definition eventCount :: "CertificateBuildParams \<Rightarrow> u64" where
  "eventCount p = of_nat (length (p_Bridges p) + length (p_Claims p))"

definition paramsB :: CertificateBuildParams where
  "paramsB = \<lparr>p_FromBlock = 1, p_ToBlock = 2, p_Bridges = [bridgeAt 2, bridgeAt 2],
              p_Claims = [], p_CreatedAt = 0\<rparr>"

definition paramsC :: CertificateBuildParams where
  "paramsC = \<lparr>p_FromBlock = 1, p_ToBlock = 3, p_Bridges = [bridgeAt 1, bridgeAt 2, bridgeAt 3],
              p_Claims = [], p_CreatedAt = 0\<rparr>"

text \<open>
  A configuration and an environment in which a certificate is built, sent and stored at the
  third write; \<open>envNoBridges\<close> is the same environment with no bridge event in any range.
\<close>

definition headerA :: CertificateHeader where
  "headerA = \<lparr>ch_Height = 5, ch_CertificateID = replicate 32 8, ch_NewLocalExitRoot = replicate 32 3,
              ch_PreviousLocalExitRoot = None, ch_Metadata = replicate 32 0, ch_Status = Pending\<rparr>"

definition cfgA :: Config where
  "cfgA = \<lparr>cfg_MaxCertSize = 0, cfg_MaxRetriesStoreCertificate = 3,
           cfg_BridgeMetadataAsHash = True, cfg_DryRun = False\<rparr>"

definition envA :: Env where
  "envA =
     \<lparr>e_GetLastProcessedBlock = Inr 30,
      e_GetBridgesPublished = (\<lambda>fromBlock toBlock. Inr [bridgeAt 25]),
      e_GetClaims = (\<lambda>fromBlock toBlock. Inr []),
      e_GetExitRootByIndex = (\<lambda>index. Inr (replicate 32 3)),
      e_OriginNetwork = 1,
      e_GetInfoByGlobalExitRoot = (\<lambda>ger. Inl (External 1)),
      e_GetL1InfoTreeRootByIndex = (\<lambda>index. Inl (External 1)),
      e_GetL1InfoTreeMerkleProofFromIndexToRoot = (\<lambda>index root. Inl (External 1)),
      e_GetLastSentCertificate = Inr (Some certA),
      e_GetCertificateByHeight = storeA,
      e_GetCertificatesByStatus = (\<lambda>statuses. Inr []),
      e_SaveLastSentCertificate = (\<lambda>i cert. saveA i),
      e_UpdateCertificate = (\<lambda>cert. None),
      e_SendCertificate = (\<lambda>cert. Inr (replicate 32 8)),
      e_GetCertificateHeader = (\<lambda>certificateID. Inr headerA),
      e_GetLatestKnownCertificateHeader = (\<lambda>networkID. Inr None),
      e_NewTx = None,
      e_AddLeaf = (\<lambda>index hash. None),
      e_QueryRoot = (\<lambda>index. Inr (replicate 32 4)),
      e_Rollback = None,
      e_now = 1000,
      e_EstimatedSize = eventCount,
      e_MaxDepositCount = (\<lambda>certParams. 0),
      e_Keccak256 = (\<lambda>bytes. bytes),
      e_BridgeHash = (\<lambda>bridge. replicate 32 5),
      e_BridgeExitHash = (\<lambda>bridgeExit. replicate 32 6),
      e_DecodeGlobalIndex = (\<lambda>globalIndex. Inr (False, 0, 0)),
      e_CalculateRoot = (\<lambda>leafHash proof index. leafHash),
      e_MetadataToHash = (\<lambda>fromBlock offset createdAt. replicate 32 0),
      e_NewCertificateMetadataFromHash =
        (\<lambda>hash. \<lparr>m_ToBlock = 0, m_FromBlock = 10, m_Offset = 5, m_CreatedAt = 77, m_Version = 1\<rparr>),
      e_HashToSign = (\<lambda>certificate. replicate 32 1),
      e_Sign = (\<lambda>hash. Inr (replicate 64 2 @ [3])),
      e_Marshal = (\<lambda>signedCertificate. Inr ''{}'')\<rparr>"

definition envNoBridges :: Env where
  "envNoBridges = envA\<lparr>e_GetBridgesPublished := (\<lambda>fromBlock toBlock. Inr [])\<rparr>"

text \<open>
  A remote authority that knows \<open>headerA\<close> while the store is empty and accepts the write.
\<close>

definition envAdopt :: Env where
  "envAdopt = envA\<lparr>e_GetLatestKnownCertificateHeader := (\<lambda>networkID. Inr (Some headerA)),
                   e_GetLastSentCertificate := Inr None,
                   e_SaveLastSentCertificate := (\<lambda>i cert. None)\<rparr>"


text \<open>
  A remote authority two heights above \<open>certA\<close>, with another certificate ID.
\<close>

definition headerG :: CertificateHeader where
  "headerG = headerA\<lparr>ch_Height := 7\<rparr>"

definition envG :: Env where
  "envG = envA\<lparr>e_GetLatestKnownCertificateHeader := (\<lambda>networkID. Inr (Some headerG))\<rparr>"

text \<open>
  Initial checks that meet the remote authority of \<open>envG\<close> twice and then that of
  \<open>envAdopt\<close>; a context that is never cancelled.
\<close>

definition attemptsG :: "nat \<Rightarrow> Env" where
  "attemptsG i = (if i < 2 then envG else envAdopt)"

definition neverCancelled :: "nat \<Rightarrow> bool" where
  "neverCancelled i = False"

text \<open>
  Two consecutive ticks over an empty store: the L2 chain is at block 30, then at 31, and the
  remote authority accepts a certificate at each. A store that holds \<open>certA\<close> as pending.
\<close>

definition envS1 :: Env where
  "envS1 = envA\<lparr>e_GetLastSentCertificate := Inr None\<rparr>"

definition envS2 :: Env where
  "envS2 = envA\<lparr>e_GetLastSentCertificate := Inr None, e_GetLastProcessedBlock := Inr 31,
                 e_SendCertificate := (\<lambda>cert. Inr (replicate 32 9))\<rparr>"

definition envPending :: Env where
  "envPending = envA\<lparr>e_GetCertificatesByStatus := (\<lambda>statuses. Inr [certA\<lparr>ci_Status := Pending\<rparr>])\<rparr>"

section \<open>Observations of a run\<close>

text \<open>
  Modelled from the spec: the certificates in flight after a run are those the remote
  authority accepted and reports in an open status; the writes of a run are those of its
  status checks and of its sends.
\<close>

definition acceptedCertificates :: "TickResult list \<Rightarrow> Hash list" where
  "acceptedCertificates rs =
     concat (map (\<lambda>t. case t_send t of
                         None \<Rightarrow> []
                       | Some sr \<Rightarrow>
                           concat (map (\<lambda>(cert, answer). case answer of Inl err \<Rightarrow> [] | Inr certificateID \<Rightarrow> [certificateID])
                                     (sr_sent sr)))
                 rs)"

definition inFlight :: "Env \<Rightarrow> TickResult list \<Rightarrow> Hash list" where
  "inFlight env rs =
     filter (\<lambda>certificateID. case e_GetCertificateHeader env certificateID of
                                Inl err \<Rightarrow> False
                              | Inr header \<Rightarrow> IsOpen (ch_Status header))
       (acceptedCertificates rs)"

definition storeWrites :: "TickResult list \<Rightarrow> StorageWrite list" where
  "storeWrites rs =
     concat (map (\<lambda>t. t_writes t @
                       (case t_send t of
                          None \<Rightarrow> []
                        | Some sr \<Rightarrow>
                            (case sr_stored sr of
                               None \<Rightarrow> []
                             | Some (certInfo, calls) \<Rightarrow> replicate calls (SaveLastSentCertificate certInfo))))
                 rs)"

section \<open>Properties\<close>

lemma take_drop_nths:
  "k + n \<le> length xs \<Longrightarrow> take n (drop k xs) = map (\<lambda>i. xs ! i) [k..<k + n]"
  by (simp add: list_eq_iff_nth_eq)

lemma BytesToHash_32: "length b = 32 \<Longrightarrow> BytesToHash b = b"
  by (simp add: BytesToHash_def HashLength_def)

text \<open>
  C9. \<open>extractSignatureData\<close> returns the invalid-signature-size error for every input whose
  length is not exactly 65; for a 65-byte input it returns, with no error, R = bytes 0 to 31,
  S = bytes 32 to 63, and the parity flag, which is true if and only if the last byte is odd.
\<close>

theorem extractSignatureData_spec:
  "(length signature \<noteq> 65 \<longrightarrow> extractSignatureData signature = Inl errInvalidSignatureSize) \<and>
   (length signature = 65 \<longrightarrow>
      (\<exists>r s isOddParity.
         extractSignatureData signature = Inr (r, s, isOddParity) \<and>
         r = map (\<lambda>i. signature ! i) [0..<32] \<and>
         s = map (\<lambda>i. signature ! i) [32..<64] \<and>
         (isOddParity \<longleftrightarrow> odd (unat (last signature)))))"
proof (intro conjI impI)
  assume "length signature \<noteq> 65"
  then show "extractSignatureData signature = Inl errInvalidSignatureSize"
    by (simp add: extractSignatureData_def signatureSize_def)
next
  assume len: "length signature = 65"
  have r: "take 32 signature = map (\<lambda>i. signature ! i) [0..<32]"
    using len take_drop_nths [of 0 32 signature] by simp
  have s: "take 32 (drop 32 signature) = map (\<lambda>i. signature ! i) [32..<64]"
    using len take_drop_nths [of 32 32 signature] by simp
  have ne: "signature \<noteq> []"
    using len by auto
  have l: "last signature = signature ! 64"
    using len by (simp add: last_conv_nth [OF ne])
  have "extractSignatureData signature =
          Inr (take 32 signature, take 32 (drop 32 signature), unat (signature ! 64) mod 2 = 1)"
    using len by (simp add: extractSignatureData_def signatureSize_def BytesToHash_32)
  then show "\<exists>r s isOddParity.
         extractSignatureData signature = Inr (r, s, isOddParity) \<and>
         r = map (\<lambda>i. signature ! i) [0..<32] \<and>
         s = map (\<lambda>i. signature ! i) [32..<64] \<and>
         (isOddParity \<longleftrightarrow> odd (unat (last signature)))"
    using r s l by (simp add: odd_iff_mod_2_eq_one)
qed

theorem extractSignatureData_witness:
  "length (replicate 64 (2::byte) @ [3]) = 65 \<and>
   (\<exists>r s. extractSignatureData (replicate 64 2 @ [3]) = Inr (r, s, True)) \<and>
   length [1::byte, 2] \<noteq> 65 \<and>
   extractSignatureData [1, 2] = Inl errInvalidSignatureSize"
  using extractSignatureData_spec [of "replicate 64 2 @ [3]"] extractSignatureData_spec [of "[1, 2]"]
  by auto


text \<open>
  C1. Height and previous local exit root are a function of the last persisted
  \<open>CertificateInfo\<close> (and, in one case, of the stored certificate one height below): with no
  prior certificate the result is height 0 and the zero-LER constant; a prior that is not
  closed gives an error; a Settled prior gives its height plus one and its new local exit
  root; an InError prior keeps its height, with its recorded previous local exit root if
  there is one, else the zero-LER constant at height 0, else the new local exit root of the
  stored certificate at the height below, which must exist and be Settled; any other status
  is an error.
\<close>

theorem getNextHeightAndPreviousLER_spec:
  "getNextHeightAndPreviousLER g None = Inr (0, zeroLER) \<and>
   (\<not> IsClosed (ci_Status l) \<longrightarrow> (\<exists>e. getNextHeightAndPreviousLER g (Some l) = Inl e)) \<and>
   (ci_Status l = Settled \<longrightarrow>
      getNextHeightAndPreviousLER g (Some l) = Inr (ci_Height l + 1, ci_NewLocalExitRoot l)) \<and>
   (ci_Status l = InError \<and> ci_PreviousLocalExitRoot l = Some ler \<longrightarrow>
      getNextHeightAndPreviousLER g (Some l) = Inr (ci_Height l, ler)) \<and>
   (ci_Status l = InError \<and> ci_PreviousLocalExitRoot l = None \<and> ci_Height l = 0 \<longrightarrow>
      getNextHeightAndPreviousLER g (Some l) = Inr (ci_Height l, zeroLER)) \<and>
   (ci_Status l = InError \<and> ci_PreviousLocalExitRoot l = None \<and> ci_Height l \<noteq> 0 \<and>
    g (ci_Height l - 1) = Inr (Some p) \<and> ci_Status p = Settled \<longrightarrow>
      getNextHeightAndPreviousLER g (Some l) = Inr (ci_Height l, ci_NewLocalExitRoot p)) \<and>
   (ci_Status l = InError \<and> ci_PreviousLocalExitRoot l = None \<and> ci_Height l \<noteq> 0 \<and>
    (g (ci_Height l - 1) = Inr None \<or> g (ci_Height l - 1) = Inl x \<or>
     (g (ci_Height l - 1) = Inr (Some p) \<and> ci_Status p \<noteq> Settled)) \<longrightarrow>
      (\<exists>e. getNextHeightAndPreviousLER g (Some l) = Inl e)) \<and>
   (\<not> IsSettled (ci_Status l) \<and> \<not> IsInError (ci_Status l) \<longrightarrow>
      (\<exists>e. getNextHeightAndPreviousLER g (Some l) = Inl e))"
  by (cases "ci_Status l")
     (auto simp: getNextHeightAndPreviousLER_def IsClosed_def IsSettled_def IsInError_def)

theorem getNextHeightAndPreviousLER_witness:
  "getNextHeightAndPreviousLER storeA (Some certA) = Inr (5, replicate 32 9) \<and>
   getNextHeightAndPreviousLER storeA (Some (certA\<lparr>ci_Status := Settled\<rparr>)) = Inr (6, replicate 32 2) \<and>
   getNextHeightAndPreviousLER storeA (Some (certA\<lparr>ci_PreviousLocalExitRoot := Some (replicate 32 7)\<rparr>))
     = Inr (5, replicate 32 7) \<and>
   getNextHeightAndPreviousLER storeA (Some (certA\<lparr>ci_Height := 0\<rparr>)) = Inr (0, zeroLER) \<and>
   (\<exists>e. getNextHeightAndPreviousLER storeA (Some (certA\<lparr>ci_Height := 9\<rparr>)) = Inl e) \<and>
   (\<exists>e. getNextHeightAndPreviousLER storeA (Some (certA\<lparr>ci_Status := Pending\<rparr>)) = Inl e)"
  using getNextHeightAndPreviousLER_spec
          [of storeA certA "[]" "certA\<lparr>ci_Height := 4, ci_Status := Settled, ci_NewLocalExitRoot := replicate 32 9\<rparr>"]
        getNextHeightAndPreviousLER_spec [of storeA "certA\<lparr>ci_Status := Settled\<rparr>"]
        getNextHeightAndPreviousLER_spec
          [of storeA "certA\<lparr>ci_PreviousLocalExitRoot := Some (replicate 32 7)\<rparr>" "replicate 32 7"]
        getNextHeightAndPreviousLER_spec [of storeA "certA\<lparr>ci_Height := 0\<rparr>"]
        getNextHeightAndPreviousLER_spec [of storeA "certA\<lparr>ci_Height := 9\<rparr>"]
        getNextHeightAndPreviousLER_spec [of storeA "certA\<lparr>ci_Status := Pending\<rparr>"]
  by (simp add: certA_def storeA_def IsClosed_def IsSettled_def IsInError_def)

subsection \<open>The retry loop of the store\<close>














subsection \<open>The Size Governor\<close>

lemma blocks_gt_1:
  assumes "1 < NumberOfBlocks c"
  shows "uint (p_ToBlock c - 1) = uint (p_ToBlock c) - 1"
    and "p_FromBlock c \<le> p_ToBlock c - 1"
    and "p_ToBlock c - 1 < p_ToBlock c"
proof -
  from assms have lt: "uint (p_FromBlock c) < uint (p_ToBlock c)"
    by (simp add: NumberOfBlocks_def)
  have "1 \<le> uint (p_ToBlock c)"
    using lt uint_ge_0 [of "p_FromBlock c"] by linarith
  then have "uint (1 :: u64) \<le> uint (p_ToBlock c)"
    by simp
  then show dec: "uint (p_ToBlock c - 1) = uint (p_ToBlock c) - 1"
    using uint_sub_lem [of 1 "p_ToBlock c"] by simp
  show "p_FromBlock c \<le> p_ToBlock c - 1"
    using lt dec by (simp add: word_le_def)
  show "p_ToBlock c - 1 < p_ToBlock c"
    using dec by (simp add: word_less_def)
qed

lemma Range_cut:
  assumes "1 < NumberOfBlocks c"
  shows "Range c (p_FromBlock c) (p_ToBlock c - 1) =
           Inr (c\<lparr>p_ToBlock := p_ToBlock c - 1,
                  p_Bridges := filter (\<lambda>b. inRange (p_FromBlock c) (p_ToBlock c - 1) (b_BlockNum b)) (p_Bridges c),
                  p_Claims := filter (\<lambda>cl. inRange (p_FromBlock c) (p_ToBlock c - 1) (cl_BlockNum cl)) (p_Claims c)\<rparr>)"
proof -
  have "\<not> p_ToBlock c < p_ToBlock c - 1"
    using blocks_gt_1(3) [OF assms] by simp
  then show ?thesis
    by (simp add: Range_def)
qed

lemma Range_fields:
  assumes "Range c a b = Inr c'"
  shows "p_FromBlock c' = a" "p_ToBlock c' = b"
    "p_Bridges c' = filter (\<lambda>x. inRange a b (b_BlockNum x)) (p_Bridges c)"
    "p_Claims c' = filter (\<lambda>x. inRange a b (cl_BlockNum x)) (p_Claims c)"
    "p_CreatedAt c' = p_CreatedAt c"
  using assms by (auto simp: Range_def split: if_splits)

lemma Range_Range:
  assumes "Range c (p_FromBlock c) b = Inr c'" and "Range c' (p_FromBlock c) b' = Inr R" and "b' \<le> b"
  shows "Range c (p_FromBlock c) b' = Inr R"
proof -
  have le: "\<not> p_ToBlock c < b"
    using assms(1) by (auto simp: Range_def split: if_splits)
  then have le': "\<not> p_ToBlock c < b'"
    using assms(3) by simp
  have in_eq: "\<And>n. (inRange (p_FromBlock c) b n \<and> inRange (p_FromBlock c) b' n) = inRange (p_FromBlock c) b' n"
    using assms(3) by (auto simp: inRange_def)
  have c': "c' = c\<lparr>p_FromBlock := p_FromBlock c, p_ToBlock := b,
                  p_Bridges := filter (\<lambda>x. inRange (p_FromBlock c) b (b_BlockNum x)) (p_Bridges c),
                  p_Claims := filter (\<lambda>x. inRange (p_FromBlock c) b (cl_BlockNum x)) (p_Claims c)\<rparr>"
    using assms(1) le by (simp add: Range_def)
  have "\<not> p_ToBlock c' < b'"
    using assms(3) by (simp add: c')
  then have "R = c'\<lparr>p_FromBlock := p_FromBlock c, p_ToBlock := b',
                  p_Bridges := filter (\<lambda>x. inRange (p_FromBlock c) b' (b_BlockNum x)) (p_Bridges c'),
                  p_Claims := filter (\<lambda>x. inRange (p_FromBlock c) b' (cl_BlockNum x)) (p_Claims c')\<rparr>"
    using assms(2) by (simp add: Range_def c')
  then have "R = c\<lparr>p_FromBlock := p_FromBlock c, p_ToBlock := b',
                  p_Bridges := filter (\<lambda>x. inRange (p_FromBlock c) b' (b_BlockNum x)) (p_Bridges c),
                  p_Claims := filter (\<lambda>x. inRange (p_FromBlock c) b' (cl_BlockNum x)) (p_Claims c)\<rparr>"
    by (simp add: c' in_eq)
  then show ?thesis
    using le' by (simp add: Range_def)
qed

lemma limitCertSizeLoop_result:
  "p_Bridges c \<noteq> [] \<Longrightarrow>
   \<exists>R. limitCertSizeLoop est m c prev = Inr (Some R) \<and>
       p_FromBlock R = p_FromBlock c \<and> p_ToBlock R \<le> p_ToBlock c \<and> p_Bridges R \<noteq> [] \<and>
       (R = c \<or> Range c (p_FromBlock c) (p_ToBlock R) = Inr R \<and> p_ToBlock R < p_ToBlock c) \<and>
       (m = 0 \<or> est R < m \<or> NumberOfBlocks R \<le> 1 \<or>
        filter (\<lambda>b. inRange (p_FromBlock R) (p_ToBlock R - 1) (b_BlockNum b)) (p_Bridges R) = [])"
proof (induction est m c prev rule: limitCertSizeLoop.induct)
  case (1 est m c prev)
  have nb: "NumberOfBridges c \<noteq> 0"
    using "1.prems" by (simp add: NumberOfBridges_def)
  show ?case
  proof (cases "m = 0 \<or> est c < m \<or> NumberOfBlocks c \<le> 1")
    case True
    then have "limitCertSizeLoop est m c prev = Inr (Some c)"
      using nb by (subst limitCertSizeLoop.simps) auto
    then show ?thesis
      using True "1.prems" by auto
  next
    case False
    then have blocks: "1 < NumberOfBlocks c" and big: "\<not> (m = 0 \<or> est c < m)"
      by auto
    define c' where "c' = c\<lparr>p_ToBlock := p_ToBlock c - 1,
                  p_Bridges := filter (\<lambda>b. inRange (p_FromBlock c) (p_ToBlock c - 1) (b_BlockNum b)) (p_Bridges c),
                  p_Claims := filter (\<lambda>cl. inRange (p_FromBlock c) (p_ToBlock c - 1) (cl_BlockNum cl)) (p_Claims c)\<rparr>"
    have rng: "Range c (p_FromBlock c) (p_ToBlock c - 1) = Inr c'"
      unfolding c'_def by (rule Range_cut [OF blocks])
    have step: "limitCertSizeLoop est m c prev = limitCertSizeLoop est m c' (Some c)"
      using nb False rng by (subst limitCertSizeLoop.simps) auto
    have less: "p_ToBlock c - 1 < p_ToBlock c"
      by (rule blocks_gt_1(3) [OF blocks])
    show ?thesis
    proof (cases "p_Bridges c' = []")
      case True
      then have "limitCertSizeLoop est m c' (Some c) = Inr (Some c)"
        by (subst limitCertSizeLoop.simps) (simp add: NumberOfBridges_def)
      moreover have "(m = 0 \<or> est c < m \<or> NumberOfBlocks c \<le> 1 \<or>
        filter (\<lambda>b. inRange (p_FromBlock c) (p_ToBlock c - 1) (b_BlockNum b)) (p_Bridges c) = [])"
        using True by (simp add: c'_def)
      ultimately show ?thesis
        using step "1.prems" by simp
    next
      case ne: False
      have "\<not> NumberOfBlocks c \<le> 1"
        using blocks by simp
      from "1.IH" [OF nb big this rng ne]
      obtain R where R: "limitCertSizeLoop est m c' (Some c) = Inr (Some R)"
        "p_FromBlock R = p_FromBlock c'" "p_ToBlock R \<le> p_ToBlock c'" "p_Bridges R \<noteq> []"
        "R = c' \<or> Range c' (p_FromBlock c') (p_ToBlock R) = Inr R \<and> p_ToBlock R < p_ToBlock c'"
        "(m = 0 \<or> est R < m \<or> NumberOfBlocks R \<le> 1 \<or>
        filter (\<lambda>b. inRange (p_FromBlock R) (p_ToBlock R - 1) (b_BlockNum b)) (p_Bridges R) = [])"
        by blast
      have f: "p_FromBlock c' = p_FromBlock c" "p_ToBlock c' = p_ToBlock c - 1"
        by (simp_all add: c'_def)
      have lt: "p_ToBlock R < p_ToBlock c"
        using R(3) less f by simp
      have "Range c (p_FromBlock c) (p_ToBlock R) = Inr R"
      proof (cases "R = c'")
        case True
        then show ?thesis using rng f by simp
      next
        case False
        with R(5) have r1: "Range c' (p_FromBlock c) (p_ToBlock R) = Inr R"
          using f by simp
        have le: "p_ToBlock R \<le> p_ToBlock c - 1"
          using R(3) f by simp
        show ?thesis
          by (rule Range_Range [OF rng r1 le])
      qed
      then have "limitCertSizeLoop est m c prev = Inr (Some R) \<and>
         p_FromBlock R = p_FromBlock c \<and> p_ToBlock R \<le> p_ToBlock c \<and> p_Bridges R \<noteq> [] \<and>
         (R = c \<or> Range c (p_FromBlock c) (p_ToBlock R) = Inr R \<and> p_ToBlock R < p_ToBlock c) \<and>
         (m = 0 \<or> est R < m \<or> NumberOfBlocks R \<le> 1 \<or>
        filter (\<lambda>b. inRange (p_FromBlock R) (p_ToBlock R - 1) (b_BlockNum b)) (p_Bridges R) = [])"
        using step R(1,2,4,6) lt f(1) by simp
      then show ?thesis
        by (rule exI)
    qed
  qed
qed

lemma limitCertSizeLoop_no_bridges:
  "p_Bridges c = [] \<Longrightarrow>
   limitCertSizeLoop est m c None = Inr None"
  by (subst limitCertSizeLoop.simps) (simp add: NumberOfBridges_def)


lemma limitCertSizeLoop_step:
  assumes "p_Bridges c \<noteq> []" "MaxCertSize \<noteq> 0" "\<not> EstimatedSize c < MaxCertSize" "1 < NumberOfBlocks c"
  shows "\<exists>c'. Range c (p_FromBlock c) (p_ToBlock c - 1) = Inr c' \<and>
              uint (p_ToBlock c') = uint (p_ToBlock c) - 1 \<and> p_FromBlock c' = p_FromBlock c \<and>
              p_Bridges c' = filter (\<lambda>b. inRange (p_FromBlock c) (p_ToBlock c - 1) (b_BlockNum b)) (p_Bridges c) \<and>
              limitCertSizeLoop EstimatedSize MaxCertSize c prev =
              limitCertSizeLoop EstimatedSize MaxCertSize c' (Some c)"
proof -
  define c' where "c' = c\<lparr>p_ToBlock := p_ToBlock c - 1,
                  p_Bridges := filter (\<lambda>b. inRange (p_FromBlock c) (p_ToBlock c - 1) (b_BlockNum b)) (p_Bridges c),
                  p_Claims := filter (\<lambda>cl. inRange (p_FromBlock c) (p_ToBlock c - 1) (cl_BlockNum cl)) (p_Claims c)\<rparr>"
  have rng: "Range c (p_FromBlock c) (p_ToBlock c - 1) = Inr c'"
    unfolding c'_def by (rule Range_cut [OF assms(4)])
  have "NumberOfBridges c \<noteq> 0"
    using assms(1) by (simp add: NumberOfBridges_def)
  then have step: "limitCertSizeLoop EstimatedSize MaxCertSize c prev =
                   limitCertSizeLoop EstimatedSize MaxCertSize c' (Some c)"
    using assms(2,3,4) rng by (subst limitCertSizeLoop.simps) auto
  have "uint (p_ToBlock c') = uint (p_ToBlock c) - 1"
    using blocks_gt_1(1) [OF assms(4)] by (simp add: c'_def)
  moreover have "p_FromBlock c' = p_FromBlock c"
    by (simp add: c'_def)
  moreover have "p_Bridges c' = filter (\<lambda>b. inRange (p_FromBlock c) (p_ToBlock c - 1) (b_BlockNum b)) (p_Bridges c)"
    by (simp add: c'_def)
  ultimately show ?thesis
    using rng step by blast
qed

lemma limitCertSize_result:
  assumes br: "p_Bridges P \<noteq> []" and nz: "MaxCertSize \<noteq> 0" and big: "MaxCertSize < EstimatedSize P"
  shows "\<exists>R. limitCertSize EstimatedSize MaxCertSize P = Inr (Some R) \<and>
          p_FromBlock R = p_FromBlock P \<and> p_Bridges R \<noteq> [] \<and>
          (EstimatedSize R < MaxCertSize \<or> NumberOfBlocks R \<le> 1 \<or>
           filter (\<lambda>b. inRange (p_FromBlock R) (p_ToBlock R - 1) (b_BlockNum b)) (p_Bridges R) = []) \<and>
          (if NumberOfBlocks P \<le> 1 \<or>
              filter (\<lambda>b. inRange (p_FromBlock P) (p_ToBlock P - 1) (b_BlockNum b)) (p_Bridges P) = []
           then R = P
           else p_ToBlock R < p_ToBlock P \<and> Range P (p_FromBlock P) (p_ToBlock R) = Inr R)"
proof -
  have nb: "NumberOfBridges P \<noteq> 0"
    using br by (simp add: NumberOfBridges_def)
  have nfit: "\<not> EstimatedSize P < MaxCertSize"
    using big by simp
  show ?thesis
  proof (cases "NumberOfBlocks P \<le> 1")
    case True
    then have "limitCertSizeLoop EstimatedSize MaxCertSize P None = Inr (Some P)"
      using nb by (subst limitCertSizeLoop.simps) simp
    then show ?thesis
      using True br by (simp add: limitCertSize_def)
  next
    case False
    then have blocks: "1 < NumberOfBlocks P"
      by simp
    from limitCertSizeLoop_step [where c = P and MaxCertSize = MaxCertSize and EstimatedSize = EstimatedSize
        and prev = None, OF br nz nfit blocks]
    obtain c' where c': "Range P (p_FromBlock P) (p_ToBlock P - 1) = Inr c'"
      "p_FromBlock c' = p_FromBlock P"
      "p_Bridges c' = filter (\<lambda>b. inRange (p_FromBlock P) (p_ToBlock P - 1) (b_BlockNum b)) (p_Bridges P)"
      "limitCertSizeLoop EstimatedSize MaxCertSize P None =
       limitCertSizeLoop EstimatedSize MaxCertSize c' (Some P)"
      by blast
    have to': "p_ToBlock c' = p_ToBlock P - 1"
      using c'(1) by (rule Range_fields(2))
    have less: "p_ToBlock P - 1 < p_ToBlock P"
      by (rule blocks_gt_1(3) [OF blocks])
    show ?thesis
    proof (cases "p_Bridges c' = []")
      case True
      then have "limitCertSizeLoop EstimatedSize MaxCertSize c' (Some P) = Inr (Some P)"
        by (subst limitCertSizeLoop.simps) (simp add: NumberOfBridges_def)
      then show ?thesis
        using True br c'(3,4) by (simp add: limitCertSize_def)
    next
      case ne: False
      from limitCertSizeLoop_result [OF ne, of EstimatedSize MaxCertSize "Some P"]
      obtain R where R: "limitCertSizeLoop EstimatedSize MaxCertSize c' (Some P) = Inr (Some R)"
        "p_FromBlock R = p_FromBlock c'" "p_ToBlock R \<le> p_ToBlock c'" "p_Bridges R \<noteq> []"
        "R = c' \<or> Range c' (p_FromBlock c') (p_ToBlock R) = Inr R \<and> p_ToBlock R < p_ToBlock c'"
        "MaxCertSize = 0 \<or> EstimatedSize R < MaxCertSize \<or> NumberOfBlocks R \<le> 1 \<or>
         filter (\<lambda>b. inRange (p_FromBlock R) (p_ToBlock R - 1) (b_BlockNum b)) (p_Bridges R) = []"
        by blast
      have lt: "p_ToBlock R < p_ToBlock P"
        using R(3) less to' by simp
      have rng: "Range P (p_FromBlock P) (p_ToBlock R) = Inr R"
      proof (cases "R = c'")
        case True
        then show ?thesis using c'(1) to' by simp
      next
        case False
        with R(5) have r1: "Range c' (p_FromBlock P) (p_ToBlock R) = Inr R"
          using c'(2) by simp
        have le: "p_ToBlock R \<le> p_ToBlock P - 1"
          using R(3) to' by simp
        show ?thesis
          by (rule Range_Range [OF c'(1) r1 le])
      qed
      have cond: "\<not> (NumberOfBlocks P \<le> 1 \<or>
              filter (\<lambda>b. inRange (p_FromBlock P) (p_ToBlock P - 1) (b_BlockNum b)) (p_Bridges P) = [])"
        using blocks ne c'(3) by simp
      have "limitCertSize EstimatedSize MaxCertSize P = Inr (Some R)"
        using c'(4) R(1) by (simp add: limitCertSize_def)
      moreover have "p_FromBlock R = p_FromBlock P"
        using R(2) c'(2) by simp
      moreover have "EstimatedSize R < MaxCertSize \<or> NumberOfBlocks R \<le> 1 \<or>
           filter (\<lambda>b. inRange (p_FromBlock R) (p_ToBlock R - 1) (b_BlockNum b)) (p_Bridges R) = []"
        using R(6) nz by simp
      ultimately show ?thesis
        using R(4) lt rng cond by (intro exI [of _ R]) (simp only: if_False simp_thms)
    qed
  qed
qed

text \<open>
  C4 (amended). For build parameters \<open>P\<close> with at least one bridge event, a ceiling above 0
  and an estimated size above the ceiling, \<open>limitCertSize\<close> returns a range \<open>R\<close> that starts
  where \<open>P\<close> starts, holds at least one bridge event, and for which one of three things is
  true: its estimated size is below the ceiling, it spans at most one block, or cutting its
  last block would leave no bridge event. \<open>R\<close> is \<open>P\<close> itself when \<open>P\<close> spans at most one
  block or cutting its last block leaves no bridge event; otherwise \<open>R.ToBlock < P.ToBlock\<close>
  and \<open>R\<close> is \<open>P\<close> re-filtered to the shorter range. Each iteration of the loop that narrows
  reduces \<open>ToBlock\<close> by exactly one block and keeps \<open>FromBlock\<close>.
\<close>

theorem limitCertSize_spec:
  "(p_Bridges P \<noteq> [] \<and> MaxCertSize \<noteq> 0 \<and> MaxCertSize < EstimatedSize P \<longrightarrow>
     (\<exists>R. limitCertSize EstimatedSize MaxCertSize P = Inr (Some R) \<and>
          p_FromBlock R = p_FromBlock P \<and> p_Bridges R \<noteq> [] \<and>
          (EstimatedSize R < MaxCertSize \<or> NumberOfBlocks R \<le> 1 \<or>
           filter (\<lambda>b. inRange (p_FromBlock R) (p_ToBlock R - 1) (b_BlockNum b)) (p_Bridges R) = []) \<and>
          (if NumberOfBlocks P \<le> 1 \<or>
              filter (\<lambda>b. inRange (p_FromBlock P) (p_ToBlock P - 1) (b_BlockNum b)) (p_Bridges P) = []
           then R = P
           else p_ToBlock R < p_ToBlock P \<and> Range P (p_FromBlock P) (p_ToBlock R) = Inr R))) \<and>
   (p_Bridges c \<noteq> [] \<and> MaxCertSize \<noteq> 0 \<and> \<not> EstimatedSize c < MaxCertSize \<and> 1 < NumberOfBlocks c \<longrightarrow>
     (\<exists>c'. Range c (p_FromBlock c) (p_ToBlock c - 1) = Inr c' \<and>
           uint (p_ToBlock c') = uint (p_ToBlock c) - 1 \<and> p_FromBlock c' = p_FromBlock c \<and>
           limitCertSizeLoop EstimatedSize MaxCertSize c prev =
           limitCertSizeLoop EstimatedSize MaxCertSize c' (Some c)))"
proof (intro conjI impI)
  assume "p_Bridges P \<noteq> [] \<and> MaxCertSize \<noteq> 0 \<and> MaxCertSize < EstimatedSize P"
  then show "\<exists>R. limitCertSize EstimatedSize MaxCertSize P = Inr (Some R) \<and>
          p_FromBlock R = p_FromBlock P \<and> p_Bridges R \<noteq> [] \<and>
          (EstimatedSize R < MaxCertSize \<or> NumberOfBlocks R \<le> 1 \<or>
           filter (\<lambda>b. inRange (p_FromBlock R) (p_ToBlock R - 1) (b_BlockNum b)) (p_Bridges R) = []) \<and>
          (if NumberOfBlocks P \<le> 1 \<or>
              filter (\<lambda>b. inRange (p_FromBlock P) (p_ToBlock P - 1) (b_BlockNum b)) (p_Bridges P) = []
           then R = P
           else p_ToBlock R < p_ToBlock P \<and> Range P (p_FromBlock P) (p_ToBlock R) = Inr R)"
    using limitCertSize_result [of P MaxCertSize EstimatedSize] by blast
next
  assume a: "p_Bridges c \<noteq> [] \<and> MaxCertSize \<noteq> 0 \<and> \<not> EstimatedSize c < MaxCertSize \<and> 1 < NumberOfBlocks c"
  then have "p_Bridges c \<noteq> []" "MaxCertSize \<noteq> 0" "\<not> EstimatedSize c < MaxCertSize" "1 < NumberOfBlocks c"
    by simp_all
  from limitCertSizeLoop_step [where c = c and MaxCertSize = MaxCertSize and EstimatedSize = EstimatedSize
      and prev = prev, OF this]
  show "\<exists>c'. Range c (p_FromBlock c) (p_ToBlock c - 1) = Inr c' \<and>
           uint (p_ToBlock c') = uint (p_ToBlock c) - 1 \<and> p_FromBlock c' = p_FromBlock c \<and>
           limitCertSizeLoop EstimatedSize MaxCertSize c prev =
           limitCertSizeLoop EstimatedSize MaxCertSize c' (Some c)"
    by blast
qed

text \<open>
  The claim as written fails where the cut by one block leaves no bridge event: both bridge
  events of \<open>paramsB\<close> lie in its last block, so the previous attempt, \<open>paramsB\<close> itself, is
  returned: \<open>ToBlock\<close> is not reduced, the size is above the ceiling and the range spans two
  blocks. The size function counts the events.
\<close>

lemma paramsB_cut:
  "Range paramsB 1 1 = Inr (paramsB\<lparr>p_ToBlock := 1, p_Bridges := []\<rparr>)"
  by (simp add: Range_def paramsB_def inRange_def bridgeAt_def word_less_nat_alt word_le_nat_alt)

theorem limitCertSize_counterexample:
  "p_Bridges paramsB \<noteq> [] \<and> (0::u64) < 1 \<and> 1 < eventCount paramsB \<and>
   limitCertSize eventCount 1 paramsB = Inr (Some paramsB) \<and>
   \<not> p_ToBlock paramsB < p_ToBlock paramsB \<and>
   \<not> (eventCount paramsB \<le> 1 \<or> NumberOfBlocks paramsB = 1)"
proof -
  have size: "eventCount paramsB = 2"
    by (simp add: eventCount_def paramsB_def)
  have blocks: "NumberOfBlocks paramsB = 2"
    by (simp add: NumberOfBlocks_def paramsB_def)
  have "limitCertSizeLoop eventCount 1 paramsB None =
        limitCertSizeLoop eventCount 1 (paramsB\<lparr>p_ToBlock := 1, p_Bridges := []\<rparr>) (Some paramsB)"
    using size blocks paramsB_cut
    by (subst limitCertSizeLoop.simps)
       (simp add: NumberOfBridges_def paramsB_def word_less_nat_alt word_le_nat_alt)
  also have "\<dots> = Inr (Some paramsB)"
    by (subst limitCertSizeLoop.simps) (simp add: NumberOfBridges_def)
  finally have "limitCertSize eventCount 1 paramsB = Inr (Some paramsB)"
    by (simp add: limitCertSize_def)
  then show ?thesis
    using size blocks by (simp add: paramsB_def word_less_nat_alt word_le_nat_alt)
qed

theorem limitCertSize_witness:
  "p_Bridges paramsC \<noteq> [] \<and> (2::u64) \<noteq> 0 \<and> 2 < eventCount paramsC \<and>
   (\<exists>R. limitCertSize eventCount 2 paramsC = Inr (Some R) \<and> p_FromBlock R = 1 \<and>
        p_ToBlock R < 3 \<and> p_Bridges R \<noteq> [])"
proof -
  have h: "p_Bridges paramsC \<noteq> [] \<and> (2::u64) \<noteq> 0 \<and> 2 < eventCount paramsC"
    by (simp add: paramsC_def eventCount_def word_less_nat_alt)
  have c: "\<not> (NumberOfBlocks paramsC \<le> 1 \<or>
              filter (\<lambda>b. inRange (p_FromBlock paramsC) (p_ToBlock paramsC - 1) (b_BlockNum b))
                (p_Bridges paramsC) = [])"
    by (simp add: paramsC_def NumberOfBlocks_def inRange_def bridgeAt_def word_le_nat_alt)
  have f: "p_FromBlock paramsC = 1" "p_ToBlock paramsC = 3"
    by (simp_all add: paramsC_def)
  show ?thesis
    using limitCertSize_spec [of paramsC 2 eventCount, THEN conjunct1, THEN mp, OF h] h c f
    by auto
qed


subsection \<open>Sending one certificate\<close>

lemma limitCertSize_some:
  assumes "p_Bridges P \<noteq> []"
  shows "\<exists>R. limitCertSize est m P = Inr (Some R) \<and> p_Bridges R \<noteq> []"
  using limitCertSizeLoop_result [OF assms, of est m None] by (auto simp: limitCertSize_def)

lemma limitCertSize_no_bridges:
  "p_Bridges P = [] \<Longrightarrow> limitCertSize est m P = Inr None"
  unfolding limitCertSize_def by (rule limitCertSizeLoop_no_bridges)

lemma sendCertificate_no_bridges:
  assumes "e_GetLastProcessedBlock env = Inr lastL2BlockSynced"
    and "e_GetLastSentCertificate env = Inr l"
    and "fst (getLastSentBlockAndRetryCount l) < lastL2BlockSynced"
    and "e_GetBridgesPublished env (fst (getLastSentBlockAndRetryCount l) + 1) lastL2BlockSynced = Inr []"
  shows "sendCertificate cfg env emptyCert addFakeBridge storeCertificate singleCert =
           Some (returned (Inr None) [])"
proof -
  obtain previousToBlock retryCount where p: "getLastSentBlockAndRetryCount l = (previousToBlock, retryCount)"
    by (cases "getLastSentBlockAndRetryCount l")
  have "\<not> lastL2BlockSynced \<le> previousToBlock"
    using assms(3) p by simp
  then show ?thesis
    using assms p by (simp add: sendCertificate_def)
qed


lemma saveA_3: "saveCertificateToStorage saveA 3 = Some (None, 3)"
  by (simp add: saveCertificateToStorage_def saveCertificateToStorageLoop.simps saveA_def)

lemma getLast_certA: "getLastSentBlockAndRetryCount (Some certA) = (9, 3)"
  by (simp add: getLastSentBlockAndRetryCount_def certA_def word_less_nat_alt)

lemma limit_envA:
  "limitCertSize eventCount 0 P = (if p_Bridges P = [] then Inr None else Inr (Some P))"
  by (simp add: limitCertSize_def limitCertSizeLoop.simps [of _ _ P] NumberOfBridges_def)

lemma build_envA:
  "\<exists>cert. buildCertificate cfgA envA
     \<lparr>p_FromBlock = 10, p_ToBlock = 30, p_Bridges = [bridgeAt 25], p_Claims = [], p_CreatedAt = 1000\<rparr>
     (Some certA) False = Inr cert \<and> cert_Height cert = 5"
  by (simp add: buildCertificate_def IsEmpty_def getImportedBridgeExits_def exitRootAndBridgeExits_def
      envA_def getNextHeightAndPreviousLER_def certA_def storeA_def IsClosed_def IsSettled_def IsInError_def)

lemma sign_envA: "\<exists>signed. signCertificate envA cert = Inr signed"
  by (simp add: signCertificate_def envA_def extractSignatureData_def signatureSize_def)

lemma send_envA:
  "\<exists>r certInfo calls. sendCertificate cfgA envA False False True False = Some r \<and>
      sr_stored r = Some (certInfo, calls) \<and> sr_return r \<noteq> Inr None \<and> (\<forall>e. sr_return r \<noteq> Inl e)"
proof -
  obtain cert where cert: "buildCertificate cfgA envA
     \<lparr>p_FromBlock = 10, p_ToBlock = 30, p_Bridges = [bridgeAt 25], p_Claims = [], p_CreatedAt = 1000\<rparr>
     (Some certA) False = Inr cert"
    using build_envA by blast
  obtain signed where signed: "signCertificate envA cert = Inr signed"
    using sign_envA by blast
  have fields: "e_GetLastProcessedBlock envA = Inr 30" "e_GetLastSentCertificate envA = Inr (Some certA)"
    "e_GetBridgesPublished envA = (\<lambda>fromBlock toBlock. Inr [bridgeAt 25])"
    "e_GetClaims envA = (\<lambda>fromBlock toBlock. Inr [])" "e_EstimatedSize envA = eventCount"
    "e_now envA = 1000" "e_SendCertificate envA = (\<lambda>cert. Inr (replicate 32 8))"
    "e_Marshal envA = (\<lambda>signedCertificate. Inr ''{}'')" "e_SaveLastSentCertificate envA = (\<lambda>i cert. saveA i)"
    by (simp_all add: envA_def)
  have cfg: "cfg_MaxCertSize cfgA = 0" "cfg_DryRun cfgA = False" "cfg_MaxRetriesStoreCertificate cfgA = 3"
    by (simp_all add: cfgA_def)
  show ?thesis
    by (simp add: sendCertificate_def fields cfg getLast_certA limit_envA cert signed saveA_3 word_le_nat_alt)
qed





lemma sign_envS:
  assumes "e_Sign env = (\<lambda>hash. Inr (replicate 64 2 @ [3]))"
  shows "\<exists>signedCert. signCertificate env cert = Inr signedCert"
  using assms by (simp add: signCertificate_def extractSignatureData_def signatureSize_def)








lemma sendCertificate_no_fault:
  assumes "sendCertificate cfg env emptyCert addFakeBridge storeCertificate singleCert = Some r"
    and "e_GetLastSentCertificate env \<noteq> Inl PanicNilDereference"
  shows "sr_return r \<noteq> Inl PanicNilDereference"
proof -
  have lim: "\<And>bridges fromBlock toBlock claims. length bridges \<noteq> 0 \<Longrightarrow>
     limitCertSize (e_EstimatedSize env) (cfg_MaxCertSize cfg)
       \<lparr>p_FromBlock = fromBlock, p_ToBlock = toBlock, p_Bridges = bridges,
        p_Claims = claims, p_CreatedAt = e_now env\<rparr> \<noteq> Inr None"
  proof -
    fix bridges :: "Bridge list" and fromBlock toBlock claims
    assume "length bridges \<noteq> 0"
    then have "p_Bridges \<lparr>p_FromBlock = fromBlock, p_ToBlock = toBlock, p_Bridges = bridges,
        p_Claims = claims, p_CreatedAt = e_now env\<rparr> \<noteq> []"
      by simp
    from limitCertSize_some [OF this, of "e_EstimatedSize env" "cfg_MaxCertSize cfg"]
    show "limitCertSize (e_EstimatedSize env) (cfg_MaxCertSize cfg)
       \<lparr>p_FromBlock = fromBlock, p_ToBlock = toBlock, p_Bridges = bridges,
        p_Claims = claims, p_CreatedAt = e_now env\<rparr> \<noteq> Inr None"
      by auto
  qed
  show ?thesis
    using assms lim
    by (auto simp: sendCertificate_def Let_def returned_def
             split: sum.splits option.splits if_splits prod.splits)
qed

text \<open>
  C10 (amended). Called with build parameters that have no bridge event, \<open>limitCertSize\<close>
  takes its zero-bridges branch in the first iteration, where the previous attempt is nil,
  and returns that nil pointer with no error: it returns no build parameters, and it does not
  fault. With at least one bridge event it always returns build parameters, which have a
  bridge event. \<open>sendCertificate\<close> returns early, as a tick with nothing to send, when the
  syncer reports no bridge in the block range, so it never reads through a nil result of
  \<open>limitCertSize\<close>: it returns the fault of a nil pointer only if the store handed that very
  error back.
\<close>

theorem limitCertSize_precondition:
  "(p_Bridges P = [] \<longrightarrow> limitCertSize EstimatedSize MaxCertSize P = Inr None) \<and>
   (p_Bridges P \<noteq> [] \<longrightarrow>
      (\<exists>R. limitCertSize EstimatedSize MaxCertSize P = Inr (Some R) \<and> p_Bridges R \<noteq> [])) \<and>
   (e_GetLastProcessedBlock env = Inr lastL2BlockSynced \<and> e_GetLastSentCertificate env = Inr l \<and>
    fst (getLastSentBlockAndRetryCount l) < lastL2BlockSynced \<and>
    e_GetBridgesPublished env (fst (getLastSentBlockAndRetryCount l) + 1) lastL2BlockSynced = Inr [] \<longrightarrow>
      sendCertificate cfg env emptyCert addFakeBridge storeCertificate singleCert =
        Some (returned (Inr None) [])) \<and>
   (sendCertificate cfg env emptyCert addFakeBridge storeCertificate singleCert = Some r \<and>
    e_GetLastSentCertificate env \<noteq> Inl PanicNilDereference \<longrightarrow>
      sr_return r \<noteq> Inl PanicNilDereference)"
proof (intro conjI impI)
  assume "p_Bridges P = []"
  then show "limitCertSize EstimatedSize MaxCertSize P = Inr None"
    by (rule limitCertSize_no_bridges)
next
  assume "p_Bridges P \<noteq> []"
  then show "\<exists>R. limitCertSize EstimatedSize MaxCertSize P = Inr (Some R) \<and> p_Bridges R \<noteq> []"
    by (rule limitCertSize_some)
next
  assume "e_GetLastProcessedBlock env = Inr lastL2BlockSynced \<and> e_GetLastSentCertificate env = Inr l \<and>
    fst (getLastSentBlockAndRetryCount l) < lastL2BlockSynced \<and>
    e_GetBridgesPublished env (fst (getLastSentBlockAndRetryCount l) + 1) lastL2BlockSynced = Inr []"
  then show "sendCertificate cfg env emptyCert addFakeBridge storeCertificate singleCert =
        Some (returned (Inr None) [])"
    by (elim conjE) (rule sendCertificate_no_bridges)
next
  assume "sendCertificate cfg env emptyCert addFakeBridge storeCertificate singleCert = Some r \<and>
    e_GetLastSentCertificate env \<noteq> Inl PanicNilDereference"
  then show "sr_return r \<noteq> Inl PanicNilDereference"
    by (elim conjE) (rule sendCertificate_no_fault)
qed

text \<open>
  The claim as written fails on build parameters with no bridge event: for \<open>paramsB\<close> with
  its bridge events removed, \<open>limitCertSize\<close> returns the nil pointer and no error; it does
  not fault.
\<close>

theorem limitCertSize_precondition_counterexample:
  "NumberOfBridges (paramsB\<lparr>p_Bridges := []\<rparr>) = 0 \<and>
   limitCertSize eventCount 1 (paramsB\<lparr>p_Bridges := []\<rparr>) = Inr None \<and>
   limitCertSize eventCount 1 (paramsB\<lparr>p_Bridges := []\<rparr>) \<noteq> Inl PanicNilDereference"
  by (simp add: limitCertSize_def limitCertSizeLoop.simps [of _ _ "paramsB\<lparr>p_Bridges := []\<rparr>"]
        NumberOfBridges_def)

lemma envNoBridges_hyps:
  "e_GetLastProcessedBlock envNoBridges = Inr 30 \<and>
   e_GetLastSentCertificate envNoBridges = Inr (Some certA) \<and>
   fst (getLastSentBlockAndRetryCount (Some certA)) < 30 \<and>
   e_GetBridgesPublished envNoBridges (fst (getLastSentBlockAndRetryCount (Some certA)) + 1) 30 = Inr []"
  by (simp add: envNoBridges_def envA_def getLast_certA word_less_nat_alt)

theorem limitCertSize_precondition_witness:
  "p_Bridges (paramsB\<lparr>p_Bridges := []\<rparr>) = [] \<and>
   limitCertSize eventCount 1 (paramsB\<lparr>p_Bridges := []\<rparr>) = Inr None \<and>
   p_Bridges paramsB \<noteq> [] \<and>
   (\<exists>R. limitCertSize eventCount 1 paramsB = Inr (Some R) \<and> p_Bridges R \<noteq> []) \<and>
   sendCertificate cfgA envNoBridges False False True False = Some (returned (Inr None) []) \<and>
   e_GetLastSentCertificate envNoBridges \<noteq> Inl PanicNilDereference \<and>
   sr_return (returned (Inr None) []) \<noteq> Inl PanicNilDereference"
proof -
  have e: "p_Bridges (paramsB\<lparr>p_Bridges := []\<rparr>) = []"
    by simp
  have ne: "p_Bridges paramsB \<noteq> []"
    by (simp add: paramsB_def)
  have a: "limitCertSize eventCount 1 (paramsB\<lparr>p_Bridges := []\<rparr>) = Inr None"
    using limitCertSize_precondition [of "paramsB\<lparr>p_Bridges := []\<rparr>" eventCount 1, THEN conjunct1] e
    by simp
  have c: "\<exists>R. limitCertSize eventCount 1 paramsB = Inr (Some R) \<and> p_Bridges R \<noteq> []"
    using limitCertSize_precondition [of paramsB eventCount 1, THEN conjunct2, THEN conjunct1] ne
    by blast
  have d: "sendCertificate cfgA envNoBridges False False True False = Some (returned (Inr None) [])"
    using limitCertSize_precondition
            [where env = envNoBridges and lastL2BlockSynced = 30 and l = "Some certA" and cfg = cfgA
               and emptyCert = False and addFakeBridge = False and storeCertificate = True
               and singleCert = False,
             THEN conjunct2, THEN conjunct2, THEN conjunct1]
          envNoBridges_hyps
    by (rule mp)
  have f: "e_GetLastSentCertificate envNoBridges \<noteq> Inl PanicNilDereference"
    by (simp add: envNoBridges_def envA_def)
  have g: "sr_return (returned (Inr None) []) \<noteq> Inl PanicNilDereference"
    using limitCertSize_precondition
            [where env = envNoBridges and cfg = cfgA and emptyCert = False and addFakeBridge = False
               and storeCertificate = True and singleCert = False and r = "returned (Inr None) []",
             THEN conjunct2, THEN conjunct2, THEN conjunct2] d f
    by blast
  show ?thesis
    using e ne a c d f g by (intro conjI)
qed

text \<open>
  C7. For build parameters whose bridges and claims are both empty, \<open>buildCertificate\<close>
  returns the error "no bridges and claims to build certificate" and no certificate. On a
  tick, \<open>sendCertificate\<close> returns nil and no error (a tick with nothing to send) when the
  block range has no bridge event, whatever its claims are; nothing is sent or stored, and
  the tick of the Submission Loop ends with no error.
\<close>

theorem buildCertificate_empty:
  "(p_Bridges certParams = [] \<and> p_Claims certParams = [] \<longrightarrow>
      buildCertificate cfg env certParams lastSent addFakeBridge = Inl errNoBridgesAndClaims) \<and>
   (e_GetLastProcessedBlock env = Inr lastL2BlockSynced \<and> e_GetLastSentCertificate env = Inr l \<and>
    fst (getLastSentBlockAndRetryCount l) < lastL2BlockSynced \<and>
    e_GetBridgesPublished env (fst (getLastSentBlockAndRetryCount l) + 1) lastL2BlockSynced = Inr [] \<longrightarrow>
      (\<exists>r. sendCertificate cfg env emptyCert addFakeBridge storeCertificate singleCert = Some r \<and>
           sr_return r = Inr None \<and> sr_sent r = [] \<and> sr_stored r = None \<and> \<not> sr_exit r \<and>
           (\<not> fst (checkPendingCertificatesStatus env) \<longrightarrow>
              (\<exists>t. tick cfg emptyCert addFakeBridge storeCertificate singleCert env = Some t \<and>
                   t_send t = Some r))))"
proof (intro conjI impI)
  assume "p_Bridges certParams = [] \<and> p_Claims certParams = []"
  then show "buildCertificate cfg env certParams lastSent addFakeBridge = Inl errNoBridgesAndClaims"
    by (simp add: buildCertificate_def IsEmpty_def)
next
  assume "e_GetLastProcessedBlock env = Inr lastL2BlockSynced \<and> e_GetLastSentCertificate env = Inr l \<and>
    fst (getLastSentBlockAndRetryCount l) < lastL2BlockSynced \<and>
    e_GetBridgesPublished env (fst (getLastSentBlockAndRetryCount l) + 1) lastL2BlockSynced = Inr []"
  then have s: "sendCertificate cfg env emptyCert addFakeBridge storeCertificate singleCert =
        Some (returned (Inr None) [])"
    by (elim conjE) (rule sendCertificate_no_bridges)
  have "\<not> fst (checkPendingCertificatesStatus env) \<longrightarrow>
          tick cfg emptyCert addFakeBridge storeCertificate singleCert env =
            Some \<lparr>t_thereArePendingCerts = False, t_writes = snd (checkPendingCertificatesStatus env),
                  t_send = Some (returned (Inr None) [])\<rparr>"
    using s by (simp add: tick_def split: prod.splits)
  then show "\<exists>r. sendCertificate cfg env emptyCert addFakeBridge storeCertificate singleCert = Some r \<and>
           sr_return r = Inr None \<and> sr_sent r = [] \<and> sr_stored r = None \<and> \<not> sr_exit r \<and>
           (\<not> fst (checkPendingCertificatesStatus env) \<longrightarrow>
              (\<exists>t. tick cfg emptyCert addFakeBridge storeCertificate singleCert env = Some t \<and>
                   t_send t = Some r))"
    using s by (simp add: returned_def)
qed

theorem buildCertificate_empty_witness:
  "p_Bridges (paramsB\<lparr>p_Bridges := []\<rparr>) = [] \<and> p_Claims (paramsB\<lparr>p_Bridges := []\<rparr>) = [] \<and>
   buildCertificate cfgA envA (paramsB\<lparr>p_Bridges := []\<rparr>) None False = Inl errNoBridgesAndClaims \<and>
   (\<exists>r. sendCertificate cfgA envNoBridges False False True False = Some r \<and> sr_return r = Inr None \<and>
        sr_sent r = [])"
proof -
  have e: "p_Bridges (paramsB\<lparr>p_Bridges := []\<rparr>) = [] \<and> p_Claims (paramsB\<lparr>p_Bridges := []\<rparr>) = []"
    by (simp add: paramsB_def)
  have a: "buildCertificate cfgA envA (paramsB\<lparr>p_Bridges := []\<rparr>) None False = Inl errNoBridgesAndClaims"
    using buildCertificate_empty [of "paramsB\<lparr>p_Bridges := []\<rparr>" cfgA envA None False, THEN conjunct1] e
    by (rule mp)
  have b: "\<exists>r. sendCertificate cfgA envNoBridges False False True False = Some r \<and> sr_return r = Inr None \<and>
        sr_sent r = []"
    using buildCertificate_empty
            [where env = envNoBridges and lastL2BlockSynced = 30 and l = "Some certA" and cfg = cfgA
               and emptyCert = False and addFakeBridge = False and storeCertificate = True
               and singleCert = False,
             THEN conjunct2, THEN mp, OF envNoBridges_hyps]
    by blast
  show ?thesis
    using e a b by (intro conjI) simp_all
qed

subsection \<open>Reconciliation with the remote authority\<close>

lemma NewCertificateInfo_fields:
  "\<exists>certInfo. NewCertificateInfoFromAgglayerCertHeader now decode (Some R) = Some certInfo \<and>
     ci_Height certInfo = ch_Height R \<and> ci_CertificateID certInfo = ch_CertificateID R \<and>
     ci_NewLocalExitRoot certInfo = ch_NewLocalExitRoot R \<and> ci_Status certInfo = ch_Status R \<and>
     ci_PreviousLocalExitRoot certInfo = ch_PreviousLocalExitRoot R \<and>
     ci_RetryCount certInfo = 0 \<and> ci_UpdatedAt certInfo = now \<and>
     ci_FromBlock certInfo = m_FromBlock (decode (ch_Metadata R)) \<and>
     (\<not> m_Version (decode (ch_Metadata R)) < 1 \<longrightarrow>
        ci_ToBlock certInfo = m_FromBlock (decode (ch_Metadata R)) + ucast (m_Offset (decode (ch_Metadata R))) \<and>
        ci_CreatedAt certInfo = m_CreatedAt (decode (ch_Metadata R))) \<and>
     (m_Version (decode (ch_Metadata R)) < 1 \<longrightarrow>
        ci_ToBlock certInfo = m_ToBlock (decode (ch_Metadata R)) \<and> ci_CreatedAt certInfo = now)"
  by (simp add: NewCertificateInfoFromAgglayerCertHeader_def Let_def split: option.splits)

lemma updateLocalStorage_Some:
  "NewCertificateInfoFromAgglayerCertHeader (e_now env) (e_NewCertificateMetadataFromHash env) (Some R) = Some certInfo \<Longrightarrow>
   updateLocalStorageWithAggLayerCert env (Some R) = (Some certInfo, e_SaveLastSentCertificate env 0 certInfo)"
  by (simp add: updateLocalStorageWithAggLayerCert_def)

lemma check_adopt:
  assumes "e_GetLatestKnownCertificateHeader env (e_OriginNetwork env) = Inr (Some R)"
    and "e_GetLastSentCertificate env = Inr None"
    and "NewCertificateInfoFromAgglayerCertHeader (e_now env) (e_NewCertificateMetadataFromHash env) (Some R) = Some certInfo"
  shows "checkLastCertificateFromAgglayer env =
           ((case e_SaveLastSentCertificate env 0 certInfo of
               None \<Rightarrow> None
             | Some err \<Rightarrow> Some (Errorf ''recovery: error updating local storage with agglayer certificate'' (Some err))),
            [SaveLastSentCertificate certInfo])"
  using assms
  by (simp add: checkLastCertificateFromAgglayer_def updateLocalStorage_Some split: option.splits)

text \<open>
  C5. When the local store is empty and the remote has a certificate header, reconciliation
  makes exactly one store write, a \<open>SaveLastSentCertificate\<close> of the record synthesized from
  the header, and succeeds exactly when that write does. Height, certificate id, new local
  exit root, status and the previous local exit root (when present) are copied from the
  header; \<open>FromBlock\<close> is decoded from the metadata hash and \<open>ToBlock\<close> is \<open>FromBlock\<close> plus the
  decoded offset; when the decoded version is below 1, \<open>ToBlock\<close> is the legacy metadata field
  and \<open>CreatedAt\<close> is the current time.
\<close>

theorem adopt_remote_certificate:
  "e_GetLatestKnownCertificateHeader env (e_OriginNetwork env) = Inr (Some R) \<and>
   e_GetLastSentCertificate env = Inr None \<longrightarrow>
     (\<exists>certInfo.
        snd (checkLastCertificateFromAgglayer env) = [SaveLastSentCertificate certInfo] \<and>
        (fst (checkLastCertificateFromAgglayer env) = None \<longleftrightarrow>
           e_SaveLastSentCertificate env 0 certInfo = None) \<and>
        NewCertificateInfoFromAgglayerCertHeader (e_now env) (e_NewCertificateMetadataFromHash env) (Some R)
          = Some certInfo \<and>
        ci_Height certInfo = ch_Height R \<and> ci_CertificateID certInfo = ch_CertificateID R \<and>
        ci_NewLocalExitRoot certInfo = ch_NewLocalExitRoot R \<and> ci_Status certInfo = ch_Status R \<and>
        ci_PreviousLocalExitRoot certInfo = ch_PreviousLocalExitRoot R \<and>
        ci_FromBlock certInfo = m_FromBlock (e_NewCertificateMetadataFromHash env (ch_Metadata R)) \<and>
        (\<not> m_Version (e_NewCertificateMetadataFromHash env (ch_Metadata R)) < 1 \<longrightarrow>
           ci_ToBlock certInfo =
             m_FromBlock (e_NewCertificateMetadataFromHash env (ch_Metadata R)) +
             ucast (m_Offset (e_NewCertificateMetadataFromHash env (ch_Metadata R))) \<and>
           ci_CreatedAt certInfo = m_CreatedAt (e_NewCertificateMetadataFromHash env (ch_Metadata R))) \<and>
        (m_Version (e_NewCertificateMetadataFromHash env (ch_Metadata R)) < 1 \<longrightarrow>
           ci_ToBlock certInfo = m_ToBlock (e_NewCertificateMetadataFromHash env (ch_Metadata R)) \<and>
           ci_CreatedAt certInfo = e_now env))"
proof
  assume a: "e_GetLatestKnownCertificateHeader env (e_OriginNetwork env) = Inr (Some R) \<and>
   e_GetLastSentCertificate env = Inr None"
  obtain certInfo where c:
    "NewCertificateInfoFromAgglayerCertHeader (e_now env) (e_NewCertificateMetadataFromHash env) (Some R) = Some certInfo"
    "ci_Height certInfo = ch_Height R" "ci_CertificateID certInfo = ch_CertificateID R"
    "ci_NewLocalExitRoot certInfo = ch_NewLocalExitRoot R" "ci_Status certInfo = ch_Status R"
    "ci_PreviousLocalExitRoot certInfo = ch_PreviousLocalExitRoot R"
    "ci_FromBlock certInfo = m_FromBlock (e_NewCertificateMetadataFromHash env (ch_Metadata R))"
    "\<not> m_Version (e_NewCertificateMetadataFromHash env (ch_Metadata R)) < 1 \<longrightarrow>
           ci_ToBlock certInfo =
             m_FromBlock (e_NewCertificateMetadataFromHash env (ch_Metadata R)) +
             ucast (m_Offset (e_NewCertificateMetadataFromHash env (ch_Metadata R))) \<and>
           ci_CreatedAt certInfo = m_CreatedAt (e_NewCertificateMetadataFromHash env (ch_Metadata R))"
    "m_Version (e_NewCertificateMetadataFromHash env (ch_Metadata R)) < 1 \<longrightarrow>
           ci_ToBlock certInfo = m_ToBlock (e_NewCertificateMetadataFromHash env (ch_Metadata R)) \<and>
           ci_CreatedAt certInfo = e_now env"
    using NewCertificateInfo_fields [of "e_now env" "e_NewCertificateMetadataFromHash env" R] by blast
  have chk: "checkLastCertificateFromAgglayer env =
           ((case e_SaveLastSentCertificate env 0 certInfo of
               None \<Rightarrow> None
             | Some err \<Rightarrow> Some (Errorf ''recovery: error updating local storage with agglayer certificate'' (Some err))),
            [SaveLastSentCertificate certInfo])"
    using a c(1) by (intro check_adopt) simp_all
  have s1: "snd (checkLastCertificateFromAgglayer env) = [SaveLastSentCertificate certInfo]"
    by (simp add: chk)
  have s2: "fst (checkLastCertificateFromAgglayer env) = None \<longleftrightarrow>
           e_SaveLastSentCertificate env 0 certInfo = None"
    by (simp add: chk split: option.splits)
  show "\<exists>certInfo.
        snd (checkLastCertificateFromAgglayer env) = [SaveLastSentCertificate certInfo] \<and>
        (fst (checkLastCertificateFromAgglayer env) = None \<longleftrightarrow>
           e_SaveLastSentCertificate env 0 certInfo = None) \<and>
        NewCertificateInfoFromAgglayerCertHeader (e_now env) (e_NewCertificateMetadataFromHash env) (Some R)
          = Some certInfo \<and>
        ci_Height certInfo = ch_Height R \<and> ci_CertificateID certInfo = ch_CertificateID R \<and>
        ci_NewLocalExitRoot certInfo = ch_NewLocalExitRoot R \<and> ci_Status certInfo = ch_Status R \<and>
        ci_PreviousLocalExitRoot certInfo = ch_PreviousLocalExitRoot R \<and>
        ci_FromBlock certInfo = m_FromBlock (e_NewCertificateMetadataFromHash env (ch_Metadata R)) \<and>
        (\<not> m_Version (e_NewCertificateMetadataFromHash env (ch_Metadata R)) < 1 \<longrightarrow>
           ci_ToBlock certInfo =
             m_FromBlock (e_NewCertificateMetadataFromHash env (ch_Metadata R)) +
             ucast (m_Offset (e_NewCertificateMetadataFromHash env (ch_Metadata R))) \<and>
           ci_CreatedAt certInfo = m_CreatedAt (e_NewCertificateMetadataFromHash env (ch_Metadata R))) \<and>
        (m_Version (e_NewCertificateMetadataFromHash env (ch_Metadata R)) < 1 \<longrightarrow>
           ci_ToBlock certInfo = m_ToBlock (e_NewCertificateMetadataFromHash env (ch_Metadata R)) \<and>
           ci_CreatedAt certInfo = e_now env)"
    apply (rule exI [of _ certInfo])
    apply (simp only: s1 s2 c(1-7) simp_thms)
    apply (rule conjI [OF c(8) c(9)])
    done
qed

lemma envAdopt_fields:
  "e_GetLatestKnownCertificateHeader envAdopt (e_OriginNetwork envAdopt) = Inr (Some headerA) \<and>
   e_GetLastSentCertificate envAdopt = Inr None"
  by (simp add: envAdopt_def envA_def)

theorem adopt_remote_certificate_witness:
  "e_GetLatestKnownCertificateHeader envAdopt (e_OriginNetwork envAdopt) = Inr (Some headerA) \<and>
   e_GetLastSentCertificate envAdopt = Inr None \<and>
   fst (checkLastCertificateFromAgglayer envAdopt) = None \<and>
   (\<exists>certInfo. snd (checkLastCertificateFromAgglayer envAdopt) = [SaveLastSentCertificate certInfo] \<and>
      ci_Height certInfo = 5 \<and> ci_Status certInfo = Pending \<and> ci_FromBlock certInfo = 10 \<and>
      ci_ToBlock certInfo = 15 \<and> ci_CreatedAt certInfo = 77)"
proof -
  have m: "e_NewCertificateMetadataFromHash envAdopt (ch_Metadata headerA) =
             \<lparr>m_ToBlock = 0, m_FromBlock = 10, m_Offset = 5, m_CreatedAt = 77, m_Version = 1\<rparr>"
    by (simp add: envAdopt_def envA_def)
  have v: "\<not> m_Version (e_NewCertificateMetadataFromHash envAdopt (ch_Metadata headerA)) < 1"
    by (simp add: m)
  have sv: "\<And>c. e_SaveLastSentCertificate envAdopt 0 c = None"
    by (simp add: envAdopt_def)
  have h: "ch_Height headerA = 5" "ch_Status headerA = Pending"
    by (simp_all add: headerA_def)
  have "\<exists>certInfo. snd (checkLastCertificateFromAgglayer envAdopt) = [SaveLastSentCertificate certInfo] \<and>
      fst (checkLastCertificateFromAgglayer envAdopt) = None \<and>
      ci_Height certInfo = 5 \<and> ci_Status certInfo = Pending \<and> ci_FromBlock certInfo = 10 \<and>
      ci_ToBlock certInfo = 15 \<and> ci_CreatedAt certInfo = 77"
    using adopt_remote_certificate [of envAdopt headerA, THEN mp, OF envAdopt_fields]
    by (elim exE conjE, intro exI conjI) (auto simp: m h sv)
  then show ?thesis
    using envAdopt_fields by auto
qed

lemma check_both_nil:
  assumes "e_GetLatestKnownCertificateHeader env (e_OriginNetwork env) = Inr None"
    and "e_GetLastSentCertificate env = Inr None"
  shows "checkLastCertificateFromAgglayer env = (None, [])"
  using assms by (simp add: checkLastCertificateFromAgglayer_def)

lemma check_remote_nil:
  assumes "e_GetLatestKnownCertificateHeader env (e_OriginNetwork env) = Inr None"
    and "e_GetLastSentCertificate env = Inr (Some l)"
  shows "fst (checkLastCertificateFromAgglayer env) \<noteq> None"
  using assms by (simp add: checkLastCertificateFromAgglayer_def)

lemma check_remote_behind:
  assumes "e_GetLatestKnownCertificateHeader env (e_OriginNetwork env) = Inr (Some r)"
    and "e_GetLastSentCertificate env = Inr (Some l)"
    and "ch_Height r < ci_Height l"
  shows "fst (checkLastCertificateFromAgglayer env) \<noteq> None"
  using assms by (simp add: checkLastCertificateFromAgglayer_def)

lemma check_recovery:
  assumes "e_GetLatestKnownCertificateHeader env (e_OriginNetwork env) = Inr (Some r)"
    and "e_GetLastSentCertificate env = Inr (Some l)"
    and "\<not> ch_Height r < ci_Height l" and "ch_Height r = ci_Height l + 1"
    and "NewCertificateInfoFromAgglayerCertHeader (e_now env) (e_NewCertificateMetadataFromHash env) (Some r) = Some certInfo"
  shows "checkLastCertificateFromAgglayer env =
           ((case e_SaveLastSentCertificate env 0 certInfo of
               None \<Rightarrow> None
             | Some err \<Rightarrow> Some (Errorf ''recovery: error updating certificate'' (Some err))),
            [SaveLastSentCertificate certInfo])"
proof -
  have id: "ci_CertificateID certInfo = ch_CertificateID r" and st: "ci_Status certInfo = ch_Status r"
    using NewCertificateInfo_fields [of "e_now env" "e_NewCertificateMetadataFromHash env" r] assms(5)
    by auto
  have upd: "updateCertificateStatus env certInfo r = (certInfo, None, [])"
    using st by (simp add: updateCertificateStatus_def)
  show ?thesis
    using assms(1-4) id upd
    by (simp add: checkLastCertificateFromAgglayer_def updateLocalStorage_Some [OF assms(5)]
          split: option.splits)
qed

lemma check_same_page:
  assumes "e_GetLatestKnownCertificateHeader env (e_OriginNetwork env) = Inr (Some r)"
    and "e_GetLastSentCertificate env = Inr (Some l)"
    and "\<not> ch_Height r < ci_Height l" and "ch_Height r \<noteq> ci_Height l + 1"
  shows "checkLastCertificateFromAgglayer env =
           (if ci_CertificateID l \<noteq> ch_CertificateID r
            then (Some (Errorf ''recovery: mismatch between local and agglayer certificates'' None), [])
            else if ci_Status l = ch_Status r then (None, [])
            else
              ((case e_UpdateCertificate env (l\<lparr>ci_Status := ch_Status r, ci_UpdatedAt := e_now env\<rparr>) of
                  None \<Rightarrow> None
                | Some err \<Rightarrow>
                    Some (Errorf ''recovery: error updating certificate status''
                            (Some (Errorf ''error updating certificate'' (Some err))))),
               [UpdateCertificate (l\<lparr>ci_Status := ch_Status r, ci_UpdatedAt := e_now env\<rparr>)]))"
  using assms
  by (simp add: checkLastCertificateFromAgglayer_def updateCertificateStatus_def Let_def
        split: option.splits)

lemma check_error_iff:
  assumes R: "e_GetLatestKnownCertificateHeader env (e_OriginNetwork env) = Inr R"
    and L: "e_GetLastSentCertificate env = Inr L"
  shows "fst (checkLastCertificateFromAgglayer env) \<noteq> None \<longleftrightarrow>
      (L \<noteq> None \<and> R = None) \<or>
      (\<exists>l r. L = Some l \<and> R = Some r \<and> ch_Height r < ci_Height l) \<or>
      (\<exists>l r. L = Some l \<and> R = Some r \<and> \<not> ch_Height r < ci_Height l \<and>
             ch_Height r \<noteq> ci_Height l + 1 \<and> ci_CertificateID l \<noteq> ch_CertificateID r) \<or>
      (\<exists>r certInfo. R = Some r \<and>
         (L = None \<or> (\<exists>l. L = Some l \<and> \<not> ch_Height r < ci_Height l \<and> ch_Height r = ci_Height l + 1)) \<and>
         NewCertificateInfoFromAgglayerCertHeader (e_now env) (e_NewCertificateMetadataFromHash env) (Some r)
           = Some certInfo \<and>
         e_SaveLastSentCertificate env 0 certInfo \<noteq> None) \<or>
      (\<exists>l r. L = Some l \<and> R = Some r \<and> \<not> ch_Height r < ci_Height l \<and>
             ch_Height r \<noteq> ci_Height l + 1 \<and> ci_CertificateID l = ch_CertificateID r \<and>
             ci_Status l \<noteq> ch_Status r \<and>
             e_UpdateCertificate env (l\<lparr>ci_Status := ch_Status r, ci_UpdatedAt := e_now env\<rparr>) \<noteq> None)"
proof (cases L)
  case None
  note Ln = this
  show ?thesis
  proof (cases R)
    case None
    then show ?thesis
      using Ln check_both_nil R L by simp
  next
    case (Some r)
    obtain certInfo where c:
      "NewCertificateInfoFromAgglayerCertHeader (e_now env) (e_NewCertificateMetadataFromHash env) (Some r) = Some certInfo"
      using NewCertificateInfo_fields [of "e_now env" "e_NewCertificateMetadataFromHash env" r] by blast
    have "fst (checkLastCertificateFromAgglayer env) \<noteq> None \<longleftrightarrow> e_SaveLastSentCertificate env 0 certInfo \<noteq> None"
      using check_adopt [of env r certInfo] R L Ln Some c by (simp split: option.splits)
    then show ?thesis
      using Ln Some c by simp
  qed
next
  case (Some l)
  note Ls = this
  show ?thesis
  proof (cases R)
    case None
    then show ?thesis
      using Ls check_remote_nil [of env l] R L by simp
  next
    case (Some r)
    note Rs = this
    obtain certInfo where c:
      "NewCertificateInfoFromAgglayerCertHeader (e_now env) (e_NewCertificateMetadataFromHash env) (Some r) = Some certInfo"
      using NewCertificateInfo_fields [of "e_now env" "e_NewCertificateMetadataFromHash env" r] by blast
    show ?thesis
    proof (cases "ch_Height r < ci_Height l")
      case True
      then show ?thesis
        using Ls Rs check_remote_behind [of env r l] R L by simp
    next
      case nb: False
      show ?thesis
      proof (cases "ch_Height r = ci_Height l + 1")
        case True
        have "fst (checkLastCertificateFromAgglayer env) \<noteq> None \<longleftrightarrow> e_SaveLastSentCertificate env 0 certInfo \<noteq> None"
          using check_recovery [of env r l certInfo] R L Ls Rs nb True c by (simp split: option.splits)
        then show ?thesis
          using Ls Rs nb True c by simp
      next
        case False
        have "fst (checkLastCertificateFromAgglayer env) \<noteq> None \<longleftrightarrow>
                ci_CertificateID l \<noteq> ch_CertificateID r \<or>
                (ci_Status l \<noteq> ch_Status r \<and>
                 e_UpdateCertificate env (l\<lparr>ci_Status := ch_Status r, ci_UpdatedAt := e_now env\<rparr>) \<noteq> None)"
          using check_same_page [of env r l] R L Ls Rs nb False by (simp split: option.splits)
        then show ?thesis
          using Ls Rs nb False by auto
      qed
    qed
  qed
qed

lemma checkInitialStatus_Some:
  assumes "checkInitialStatus envs cancelled j = Some y"
  shows "j \<le> fst y \<and>
   (\<forall>i. j \<le> i \<and> i < fst y \<longrightarrow> fst (checkLastCertificateFromAgglayer (envs i)) \<noteq> None \<and> \<not> cancelled i) \<and>
   (if snd y then fst (checkLastCertificateFromAgglayer (envs (fst y))) = None
    else fst (checkLastCertificateFromAgglayer (envs (fst y))) \<noteq> None \<and> cancelled (fst y))"
  using assms
proof (induction envs cancelled j y rule: checkInitialStatus.raw_induct [rotated 1, consumes 1])
  case (1 checkInitialStatus envs cancelled i y)
  show ?case
  proof (cases "fst (checkLastCertificateFromAgglayer (envs i))")
    case None
    then show ?thesis
      using 1(2) by auto
  next
    case (Some err)
    show ?thesis
    proof (cases "cancelled i")
      case True
      then show ?thesis
        using 1(2) Some by auto
    next
      case False
      then have rec: "checkInitialStatus envs cancelled (Suc i) = Some y"
        using 1(2) Some by simp
      note ih = 1(1) [OF rec]
      have "\<forall>k. i \<le> k \<and> k < fst y \<longrightarrow>
              fst (checkLastCertificateFromAgglayer (envs k)) \<noteq> None \<and> \<not> cancelled k"
      proof (intro allI impI)
        fix k assume k: "i \<le> k \<and> k < fst y"
        show "fst (checkLastCertificateFromAgglayer (envs k)) \<noteq> None \<and> \<not> cancelled k"
        proof (cases "k = i")
          case True
          then show ?thesis using Some False by simp
        next
          case False
          then have "Suc i \<le> k \<and> k < fst y" using k by simp
          then show ?thesis using ih by blast
        qed
      qed
      moreover have "i \<le> fst y"
        using ih by simp
      ultimately show ?thesis
        using ih by simp
    qed
  qed
qed

lemma Start_ticks:
  assumes "Start cfg emptyCert addFakeBridge storeCertificate singleCert envs cancelled ticks = Some rs"
    and "rs \<noteq> []"
  shows "\<exists>k. checkInitialStatus envs cancelled 0 = Some (k, True) \<and>
             fst (checkLastCertificateFromAgglayer (envs k)) = None \<and>
             (\<forall>i<k. fst (checkLastCertificateFromAgglayer (envs i)) \<noteq> None) \<and>
             sendCertificates cfg emptyCert addFakeBridge storeCertificate singleCert ticks = Some rs"
proof (cases "checkInitialStatus envs cancelled 0")
  case None
  then show ?thesis
    using assms(1) by (simp add: Start_def)
next
  case (Some y)
  obtain k checked where y: "y = (k, checked)"
    by (cases y)
  have checked
  proof (rule ccontr)
    assume "\<not> checked"
    then have "rs = []"
      using assms(1) Some y by (simp add: Start_def)
    then show False
      using assms(2) by simp
  qed
  then have run: "sendCertificates cfg emptyCert addFakeBridge storeCertificate singleCert ticks = Some rs"
    using assms(1) Some y by (simp add: Start_def)
  from checkInitialStatus_Some [OF Some]
  have "fst (checkLastCertificateFromAgglayer (envs k)) = None"
    "\<forall>i<k. fst (checkLastCertificateFromAgglayer (envs i)) \<noteq> None"
    using y \<open>checked\<close> by auto
  then show ?thesis
    using Some y \<open>checked\<close> run by simp
qed

lemma Start_never:
  assumes "\<forall>i. fst (checkLastCertificateFromAgglayer (envs i)) \<noteq> None \<and> \<not> cancelled i"
  shows "Start cfg emptyCert addFakeBridge storeCertificate singleCert envs cancelled ticks = None"
proof (cases "checkInitialStatus envs cancelled 0")
  case None
  then show ?thesis
    by (simp add: Start_def)
next
  case (Some y)
  from checkInitialStatus_Some [OF Some] assms
  have False
    by (cases "snd y") auto
  then show ?thesis ..
qed

lemma envG_check:
  "fst (checkLastCertificateFromAgglayer envG) =
     Some (Errorf ''recovery: mismatch between local and agglayer certificates'' None)"
proof -
  have "e_GetLatestKnownCertificateHeader envG (e_OriginNetwork envG) = Inr (Some headerG)"
    "e_GetLastSentCertificate envG = Inr (Some certA)"
    by (simp_all add: envG_def envA_def)
  moreover have "\<not> ch_Height headerG < ci_Height certA" "ch_Height headerG \<noteq> ci_Height certA + 1"
    "ci_CertificateID certA \<noteq> ch_CertificateID headerG"
    by (simp_all add: headerG_def headerA_def certA_def)
  ultimately show ?thesis
    using check_same_page [of envG headerG certA] by simp
qed

text \<open>
  C2 (amended). With both lookups succeeding, for the local last sent certificate \<open>L\<close> and the
  remote latest certificate \<open>R\<close>, reconciliation returns an error exactly when: \<open>L\<close> is non-nil
  and \<open>R\<close> is nil; or \<open>R.Height < L.Height\<close>; or \<open>R.Height\<close> is neither below \<open>L.Height\<close> nor
  \<open>L.Height + 1\<close> and the certificate ids differ (whatever the two heights are); or the store
  write that the case needs fails, which is the save of the record synthesized from \<open>R\<close> when
  \<open>R\<close> is adopted (\<open>L\<close> nil, or \<open>R.Height = L.Height + 1\<close>) and the status update when the ids
  match and the statuses differ. The initial check is retried until an attempt succeeds or
  the context is cancelled, and the Submission Loop handles a tick only after an attempt has
  succeeded, all earlier attempts having failed; while every attempt fails and no
  cancellation arrives, the Submission Loop never starts.
\<close>

theorem checkLastCertificateFromAgglayer_errors:
  "(e_GetLatestKnownCertificateHeader env (e_OriginNetwork env) = Inr R \<and>
    e_GetLastSentCertificate env = Inr L \<longrightarrow>
     (fst (checkLastCertificateFromAgglayer env) \<noteq> None \<longleftrightarrow>
      (L \<noteq> None \<and> R = None) \<or>
      (\<exists>l r. L = Some l \<and> R = Some r \<and> ch_Height r < ci_Height l) \<or>
      (\<exists>l r. L = Some l \<and> R = Some r \<and> \<not> ch_Height r < ci_Height l \<and>
             ch_Height r \<noteq> ci_Height l + 1 \<and> ci_CertificateID l \<noteq> ch_CertificateID r) \<or>
      (\<exists>r certInfo. R = Some r \<and>
         (L = None \<or> (\<exists>l. L = Some l \<and> \<not> ch_Height r < ci_Height l \<and> ch_Height r = ci_Height l + 1)) \<and>
         NewCertificateInfoFromAgglayerCertHeader (e_now env) (e_NewCertificateMetadataFromHash env) (Some r)
           = Some certInfo \<and>
         e_SaveLastSentCertificate env 0 certInfo \<noteq> None) \<or>
      (\<exists>l r. L = Some l \<and> R = Some r \<and> \<not> ch_Height r < ci_Height l \<and>
             ch_Height r \<noteq> ci_Height l + 1 \<and> ci_CertificateID l = ch_CertificateID r \<and>
             ci_Status l \<noteq> ch_Status r \<and>
             e_UpdateCertificate env (l\<lparr>ci_Status := ch_Status r, ci_UpdatedAt := e_now env\<rparr>) \<noteq> None))) \<and>
   (Start cfg emptyCert addFakeBridge storeCertificate singleCert envs cancelled ticks = Some rs \<and> rs \<noteq> [] \<longrightarrow>
      (\<exists>k. checkInitialStatus envs cancelled 0 = Some (k, True) \<and>
           fst (checkLastCertificateFromAgglayer (envs k)) = None \<and>
           (\<forall>i<k. fst (checkLastCertificateFromAgglayer (envs i)) \<noteq> None) \<and>
           sendCertificates cfg emptyCert addFakeBridge storeCertificate singleCert ticks = Some rs)) \<and>
   ((\<forall>i. fst (checkLastCertificateFromAgglayer (envs i)) \<noteq> None \<and> \<not> cancelled i) \<longrightarrow>
      Start cfg emptyCert addFakeBridge storeCertificate singleCert envs cancelled ticks = None)"
proof (intro conjI impI)
  assume "e_GetLatestKnownCertificateHeader env (e_OriginNetwork env) = Inr R \<and>
    e_GetLastSentCertificate env = Inr L"
  then have "e_GetLatestKnownCertificateHeader env (e_OriginNetwork env) = Inr R"
    "e_GetLastSentCertificate env = Inr L"
    by simp_all
  then show "fst (checkLastCertificateFromAgglayer env) \<noteq> None \<longleftrightarrow>
      (L \<noteq> None \<and> R = None) \<or>
      (\<exists>l r. L = Some l \<and> R = Some r \<and> ch_Height r < ci_Height l) \<or>
      (\<exists>l r. L = Some l \<and> R = Some r \<and> \<not> ch_Height r < ci_Height l \<and>
             ch_Height r \<noteq> ci_Height l + 1 \<and> ci_CertificateID l \<noteq> ch_CertificateID r) \<or>
      (\<exists>r certInfo. R = Some r \<and>
         (L = None \<or> (\<exists>l. L = Some l \<and> \<not> ch_Height r < ci_Height l \<and> ch_Height r = ci_Height l + 1)) \<and>
         NewCertificateInfoFromAgglayerCertHeader (e_now env) (e_NewCertificateMetadataFromHash env) (Some r)
           = Some certInfo \<and>
         e_SaveLastSentCertificate env 0 certInfo \<noteq> None) \<or>
      (\<exists>l r. L = Some l \<and> R = Some r \<and> \<not> ch_Height r < ci_Height l \<and>
             ch_Height r \<noteq> ci_Height l + 1 \<and> ci_CertificateID l = ch_CertificateID r \<and>
             ci_Status l \<noteq> ch_Status r \<and>
             e_UpdateCertificate env (l\<lparr>ci_Status := ch_Status r, ci_UpdatedAt := e_now env\<rparr>) \<noteq> None)"
    by (rule check_error_iff)
next
  assume "Start cfg emptyCert addFakeBridge storeCertificate singleCert envs cancelled ticks = Some rs \<and> rs \<noteq> []"
  then have "Start cfg emptyCert addFakeBridge storeCertificate singleCert envs cancelled ticks = Some rs"
    "rs \<noteq> []"
    by simp_all
  then show "\<exists>k. checkInitialStatus envs cancelled 0 = Some (k, True) \<and>
           fst (checkLastCertificateFromAgglayer (envs k)) = None \<and>
           (\<forall>i<k. fst (checkLastCertificateFromAgglayer (envs i)) \<noteq> None) \<and>
           sendCertificates cfg emptyCert addFakeBridge storeCertificate singleCert ticks = Some rs"
    by (rule Start_ticks)
next
  assume "\<forall>i. fst (checkLastCertificateFromAgglayer (envs i)) \<noteq> None \<and> \<not> cancelled i"
  then show "Start cfg emptyCert addFakeBridge storeCertificate singleCert envs cancelled ticks = None"
    by (rule Start_never)
qed

text \<open>
  The claim as written fails when the remote is more than one height ahead: with the local
  certificate at height 5 and the remote one at height 7, under different ids, none of the
  three listed conditions holds, and reconciliation returns the mismatch error.
\<close>

theorem checkLastCertificateFromAgglayer_counterexample:
  "e_GetLatestKnownCertificateHeader envG (e_OriginNetwork envG) = Inr (Some headerG) \<and>
   e_GetLastSentCertificate envG = Inr (Some certA) \<and>
   \<not> ch_Height headerG < ci_Height certA \<and> ch_Height headerG \<noteq> ci_Height certA \<and>
   fst (checkLastCertificateFromAgglayer envG) =
     Some (Errorf ''recovery: mismatch between local and agglayer certificates'' None)"
  using envG_check by (simp add: envG_def envA_def headerG_def headerA_def certA_def)

lemma envAdopt_check: "fst (checkLastCertificateFromAgglayer envAdopt) = None"
proof -
  obtain certInfo where c:
    "NewCertificateInfoFromAgglayerCertHeader (e_now envAdopt) (e_NewCertificateMetadataFromHash envAdopt)
       (Some headerA) = Some certInfo"
    using NewCertificateInfo_fields [of "e_now envAdopt" "e_NewCertificateMetadataFromHash envAdopt" headerA]
    by blast
  have "e_SaveLastSentCertificate envAdopt 0 certInfo = None"
    by (simp add: envAdopt_def)
  then show ?thesis
    using check_adopt [of envAdopt headerA certInfo] envAdopt_fields c by simp
qed

lemma tick_envNoBridges:
  "tick cfgA False False True False envNoBridges =
     Some \<lparr>t_thereArePendingCerts = False, t_writes = [], t_send = Some (returned (Inr None) [])\<rparr>"
proof -
  have "checkPendingCertificatesStatus envNoBridges = (False, [])"
    by (simp add: checkPendingCertificatesStatus_def envNoBridges_def envA_def)
  moreover have "sendCertificate cfgA envNoBridges False False True False = Some (returned (Inr None) [])"
    using envNoBridges_hyps by (elim conjE) (rule sendCertificate_no_bridges)
  ultimately show ?thesis
    by (simp add: tick_def)
qed

lemma Start_attemptsG:
  "Start cfgA False False True False attemptsG neverCancelled [envNoBridges] =
     Some [\<lparr>t_thereArePendingCerts = False, t_writes = [], t_send = Some (returned (Inr None) [])\<rparr>]"
proof -
  have "checkInitialStatus attemptsG neverCancelled 0 = checkInitialStatus attemptsG neverCancelled (Suc 0)"
    by (subst checkInitialStatus.simps) (simp add: attemptsG_def neverCancelled_def envG_check)
  also have "\<dots> = checkInitialStatus attemptsG neverCancelled (Suc (Suc 0))"
    by (subst checkInitialStatus.simps) (simp add: attemptsG_def neverCancelled_def envG_check)
  also have "\<dots> = Some (Suc (Suc 0), True)"
    by (subst checkInitialStatus.simps) (simp add: attemptsG_def envAdopt_check)
  finally have "checkInitialStatus attemptsG neverCancelled 0 = Some (Suc (Suc 0), True)" .
  then show ?thesis
    by (simp add: Start_def tick_envNoBridges returned_def)
qed

theorem checkLastCertificateFromAgglayer_witness:
  "fst (checkLastCertificateFromAgglayer envG) \<noteq> None \<and>
   fst (checkLastCertificateFromAgglayer envAdopt) = None \<and>
   (\<exists>k. checkInitialStatus attemptsG neverCancelled 0 = Some (k, True) \<and>
        fst (checkLastCertificateFromAgglayer (attemptsG k)) = None \<and>
        (\<forall>i<k. fst (checkLastCertificateFromAgglayer (attemptsG i)) \<noteq> None)) \<and>
   Start cfgA False False True False (\<lambda>i. envG) neverCancelled [envNoBridges] = None"
proof -
  have g: "e_GetLatestKnownCertificateHeader envG (e_OriginNetwork envG) = Inr (Some headerG) \<and>
    e_GetLastSentCertificate envG = Inr (Some certA)"
    by (simp add: envG_def envA_def)
  have gh: "\<not> ch_Height headerG < ci_Height certA" "ch_Height headerG \<noteq> ci_Height certA + 1"
    "ci_CertificateID certA \<noteq> ch_CertificateID headerG"
    by (simp_all add: headerG_def headerA_def certA_def)
  have a: "fst (checkLastCertificateFromAgglayer envG) \<noteq> None"
    using checkLastCertificateFromAgglayer_errors
            [where env = envG and R = "Some headerG" and L = "Some certA", THEN conjunct1, THEN mp, OF g] gh
    by simp
  have ad: "e_GetLatestKnownCertificateHeader envAdopt (e_OriginNetwork envAdopt) = Inr (Some headerA) \<and>
    e_GetLastSentCertificate envAdopt = Inr None"
    by (rule envAdopt_fields)
  have sv: "\<And>c. e_SaveLastSentCertificate envAdopt 0 c = None"
    by (simp add: envAdopt_def)
  have b: "fst (checkLastCertificateFromAgglayer envAdopt) = None"
    using checkLastCertificateFromAgglayer_errors
            [where env = envAdopt and R = "Some headerA" and L = None, THEN conjunct1, THEN mp, OF ad] sv
    by simp
  have st: "Start cfgA False False True False attemptsG neverCancelled [envNoBridges] =
     Some [\<lparr>t_thereArePendingCerts = False, t_writes = [], t_send = Some (returned (Inr None) [])\<rparr>] \<and>
     [\<lparr>t_thereArePendingCerts = False, t_writes = [], t_send = Some (returned (Inr None) [])\<rparr>] \<noteq> []"
    using Start_attemptsG by simp
  have c: "\<exists>k. checkInitialStatus attemptsG neverCancelled 0 = Some (k, True) \<and>
        fst (checkLastCertificateFromAgglayer (attemptsG k)) = None \<and>
        (\<forall>i<k. fst (checkLastCertificateFromAgglayer (attemptsG i)) \<noteq> None)"
    using checkLastCertificateFromAgglayer_errors
            [where envs = attemptsG and cancelled = neverCancelled and cfg = cfgA and emptyCert = False
               and addFakeBridge = False and storeCertificate = True and singleCert = False
               and ticks = "[envNoBridges]", THEN conjunct2, THEN conjunct1, THEN mp, OF st]
    by blast
  have all: "\<forall>i. fst (checkLastCertificateFromAgglayer envG) \<noteq> None \<and> \<not> neverCancelled i"
    using a by (simp add: neverCancelled_def)
  have d: "Start cfgA False False True False (\<lambda>i. envG) neverCancelled [envNoBridges] = None"
    using checkLastCertificateFromAgglayer_errors
            [where envs = "\<lambda>i. envG" and cancelled = neverCancelled and cfg = cfgA and emptyCert = False
               and addFakeBridge = False and storeCertificate = True and singleCert = False
               and ticks = "[envNoBridges]", THEN conjunct2, THEN conjunct2, THEN mp, OF all]
    by simp
  show ?thesis
    using a b c d by (intro conjI)
qed

subsection \<open>The tick of the Submission Loop\<close>

lemma checkPendingLoop_Cons_fst:
  "fst (checkPendingLoop env (c # cs) thereArePendingCerts) =
     (case e_GetCertificateHeader env (ci_CertificateID c) of
        Inl err \<Rightarrow> True
      | Inr h \<Rightarrow>
          if ci_Status c \<noteq> ch_Status h \<and>
             e_UpdateCertificate env (c\<lparr>ci_Status := ch_Status h, ci_UpdatedAt := e_now env\<rparr>) \<noteq> None
          then True
          else fst (checkPendingLoop env cs
                      (if \<not> IsClosed (ch_Status h) then True else thereArePendingCerts)))"
proof (cases "e_GetCertificateHeader env (ci_CertificateID c)")
  case (Inl err)
  then show ?thesis by simp
next
  case (Inr h)
  show ?thesis
  proof (cases "ci_Status c = ch_Status h")
    case True
    then have u: "updateCertificateStatus env c h = (c, None, [])"
      by (simp add: updateCertificateStatus_def)
    show ?thesis
      using Inr True by (simp add: u split: prod.splits)
  next
    case False
    show ?thesis
    proof (cases "e_UpdateCertificate env (c\<lparr>ci_Status := ch_Status h, ci_UpdatedAt := e_now env\<rparr>)")
      case None
      then have u: "updateCertificateStatus env c h =
                     (c\<lparr>ci_Status := ch_Status h, ci_UpdatedAt := e_now env\<rparr>, None,
                      [UpdateCertificate (c\<lparr>ci_Status := ch_Status h, ci_UpdatedAt := e_now env\<rparr>)])"
        using False by (simp add: updateCertificateStatus_def Let_def)
      show ?thesis
        using Inr False None by (simp add: u split: prod.splits)
    next
      case (Some err)
      then have u: "updateCertificateStatus env c h =
                     (c\<lparr>ci_Status := ch_Status h, ci_UpdatedAt := e_now env\<rparr>,
                      Some (Errorf ''error updating certificate'' (Some err)),
                      [UpdateCertificate (c\<lparr>ci_Status := ch_Status h, ci_UpdatedAt := e_now env\<rparr>)])"
        using False by (simp add: updateCertificateStatus_def Let_def)
      show ?thesis
        using Inr False Some by (simp add: u)
    qed
  qed
qed

lemma checkPendingLoop_iff:
  "\<not> fst (checkPendingLoop env cs thereArePendingCerts) \<longleftrightarrow>
     \<not> thereArePendingCerts \<and>
     (\<forall>c\<in>set cs. \<exists>h. e_GetCertificateHeader env (ci_CertificateID c) = Inr h \<and> IsClosed (ch_Status h) \<and>
         (ci_Status c \<noteq> ch_Status h \<longrightarrow>
            e_UpdateCertificate env (c\<lparr>ci_Status := ch_Status h, ci_UpdatedAt := e_now env\<rparr>) = None))"
proof (induction cs arbitrary: thereArePendingCerts)
  case Nil
  show ?case by simp
next
  case (Cons c cs)
  show ?case
  proof (cases "e_GetCertificateHeader env (ci_CertificateID c)")
    case (Inl err)
    then show ?thesis
      by (simp add: checkPendingLoop_Cons_fst del: checkPendingLoop.simps)
  next
    case (Inr h)
    show ?thesis
      using Inr Cons.IH [of "if \<not> IsClosed (ch_Status h) then True else thereArePendingCerts"]
      by (auto simp add: checkPendingLoop_Cons_fst simp del: checkPendingLoop.simps)
  qed
qed

lemma checkPending_iff:
  "\<not> fst (checkPendingCertificatesStatus env) \<longleftrightarrow>
     (\<exists>cs. e_GetCertificatesByStatus env NonSettledStatuses = Inr cs \<and>
        (\<forall>c\<in>set cs. \<exists>h. e_GetCertificateHeader env (ci_CertificateID c) = Inr h \<and> IsClosed (ch_Status h) \<and>
           (ci_Status c \<noteq> ch_Status h \<longrightarrow>
              e_UpdateCertificate env (c\<lparr>ci_Status := ch_Status h, ci_UpdatedAt := e_now env\<rparr>) = None)))"
proof (cases "e_GetCertificatesByStatus env NonSettledStatuses")
  case (Inl err)
  then show ?thesis
    by (simp add: checkPendingCertificatesStatus_def)
next
  case (Inr cs)
  then show ?thesis
    using checkPendingLoop_iff [of env cs False] by (simp add: checkPendingCertificatesStatus_def)
qed

lemma sendCertificate_effects:
  assumes "sendCertificate cfg env emptyCert addFakeBridge storeCertificate singleCert = Some r"
  shows "length (sr_sent r) \<le> 1 \<and> (\<not> storeCertificate \<or> cfg_DryRun cfg \<longrightarrow> sr_stored r = None) \<and>
         (cfg_DryRun cfg \<longrightarrow> sr_sent r = [])"
  using assms
  by (auto simp: sendCertificate_def Let_def returned_def
           split: sum.splits option.splits if_splits prod.splits)

lemma tick_pending:
  "fst (checkPendingCertificatesStatus env) \<Longrightarrow>
   tick cfg emptyCert addFakeBridge storeCertificate singleCert env =
     Some \<lparr>t_thereArePendingCerts = True, t_writes = snd (checkPendingCertificatesStatus env),
           t_send = None\<rparr>"
  by (cases "checkPendingCertificatesStatus env") (simp add: tick_def)

lemma tick_not_pending:
  "\<not> fst (checkPendingCertificatesStatus env) \<Longrightarrow>
   tick cfg emptyCert addFakeBridge storeCertificate singleCert env =
     map_option (\<lambda>r. \<lparr>t_thereArePendingCerts = False, t_writes = snd (checkPendingCertificatesStatus env),
                       t_send = Some r\<rparr>)
       (sendCertificate cfg env emptyCert addFakeBridge storeCertificate singleCert)"
  by (cases "checkPendingCertificatesStatus env") (simp add: tick_def split: option.splits)

text \<open>
  C3 (amended). On every tick of the Submission Loop, \<open>sendCertificate\<close> runs only if the
  pending check returned false, which it does exactly when the status query succeeded and,
  for every certificate the store returned as non-settled, the remote header poll succeeded,
  the header's status is closed, and the status update (made when the status changed)
  succeeded. In every other case (a certificate still open after polling, or a failed query,
  poll or update) the tick builds nothing. A tick hands at most one certificate to the remote
  authority. The check sees only what the store holds: when storing is disabled, or in
  dry-run mode, \<open>sendCertificate\<close> records nothing in the store.
\<close>

theorem tick_gate:
  "(\<not> fst (checkPendingCertificatesStatus env) \<longleftrightarrow>
     (\<exists>cs. e_GetCertificatesByStatus env NonSettledStatuses = Inr cs \<and>
        (\<forall>c\<in>set cs. \<exists>h. e_GetCertificateHeader env (ci_CertificateID c) = Inr h \<and> IsClosed (ch_Status h) \<and>
           (ci_Status c \<noteq> ch_Status h \<longrightarrow>
              e_UpdateCertificate env (c\<lparr>ci_Status := ch_Status h, ci_UpdatedAt := e_now env\<rparr>) = None)))) \<and>
   (fst (checkPendingCertificatesStatus env) \<longrightarrow>
      tick cfg emptyCert addFakeBridge storeCertificate singleCert env =
        Some \<lparr>t_thereArePendingCerts = True, t_writes = snd (checkPendingCertificatesStatus env),
              t_send = None\<rparr>) \<and>
   (\<not> fst (checkPendingCertificatesStatus env) \<longrightarrow>
      tick cfg emptyCert addFakeBridge storeCertificate singleCert env =
        map_option (\<lambda>r. \<lparr>t_thereArePendingCerts = False, t_writes = snd (checkPendingCertificatesStatus env),
                          t_send = Some r\<rparr>)
          (sendCertificate cfg env emptyCert addFakeBridge storeCertificate singleCert)) \<and>
   (sendCertificate cfg env emptyCert addFakeBridge storeCertificate singleCert = Some r \<longrightarrow>
      length (sr_sent r) \<le> 1 \<and> (\<not> storeCertificate \<or> cfg_DryRun cfg \<longrightarrow> sr_stored r = None) \<and>
      (cfg_DryRun cfg \<longrightarrow> sr_sent r = []))"
proof (intro conjI impI)
  show "\<not> fst (checkPendingCertificatesStatus env) \<longleftrightarrow>
     (\<exists>cs. e_GetCertificatesByStatus env NonSettledStatuses = Inr cs \<and>
        (\<forall>c\<in>set cs. \<exists>h. e_GetCertificateHeader env (ci_CertificateID c) = Inr h \<and> IsClosed (ch_Status h) \<and>
           (ci_Status c \<noteq> ch_Status h \<longrightarrow>
              e_UpdateCertificate env (c\<lparr>ci_Status := ch_Status h, ci_UpdatedAt := e_now env\<rparr>) = None)))"
    by (rule checkPending_iff)
next
  assume "fst (checkPendingCertificatesStatus env)"
  then show "tick cfg emptyCert addFakeBridge storeCertificate singleCert env =
        Some \<lparr>t_thereArePendingCerts = True, t_writes = snd (checkPendingCertificatesStatus env),
              t_send = None\<rparr>"
    by (rule tick_pending)
next
  assume "\<not> fst (checkPendingCertificatesStatus env)"
  then show "tick cfg emptyCert addFakeBridge storeCertificate singleCert env =
        map_option (\<lambda>r. \<lparr>t_thereArePendingCerts = False, t_writes = snd (checkPendingCertificatesStatus env),
                          t_send = Some r\<rparr>)
          (sendCertificate cfg env emptyCert addFakeBridge storeCertificate singleCert)"
    by (rule tick_not_pending)
next
  assume a: "sendCertificate cfg env emptyCert addFakeBridge storeCertificate singleCert = Some r"
  show "length (sr_sent r) \<le> 1"
    using sendCertificate_effects [OF a] by simp
next
  assume a: "sendCertificate cfg env emptyCert addFakeBridge storeCertificate singleCert = Some r"
    and "\<not> storeCertificate \<or> cfg_DryRun cfg"
  then show "sr_stored r = None"
    using sendCertificate_effects [OF a] by simp
next
  assume a: "sendCertificate cfg env emptyCert addFakeBridge storeCertificate singleCert = Some r"
    and "cfg_DryRun cfg"
  then show "sr_sent r = []"
    using sendCertificate_effects [OF a] by simp
qed

lemma send_not_stored:
  assumes f: "e_GetLastProcessedBlock env = Inr lastL2" "e_GetLastSentCertificate env = Inr None"
    "e_GetBridgesPublished env = (\<lambda>fromBlock toBlock. Inr [bridgeAt 25])"
    "e_GetClaims env = (\<lambda>fromBlock toBlock. Inr [])" "e_EstimatedSize env = eventCount"
    "e_now env = 1000" "e_SendCertificate env = (\<lambda>cert. Inr certificateID)"
    "e_Marshal env = (\<lambda>signedCertificate. Inr ''{}'')"
    and l: "0 < lastL2"
    and b: "buildCertificate cfgA env
       \<lparr>p_FromBlock = 1, p_ToBlock = lastL2, p_Bridges = [bridgeAt 25], p_Claims = [], p_CreatedAt = 1000\<rparr>
       None False = Inr cert"
    and s: "signCertificate env cert = Inr signedCert"
  shows "sendCertificate cfgA env False False False False =
           Some (returned (Inr (Some signedCert)) [(signedCert, Inr certificateID)])"
proof -
  have cfg: "cfg_MaxCertSize cfgA = 0" "cfg_DryRun cfgA = False"
    by (simp_all add: cfgA_def)
  have n: "\<not> lastL2 \<le> 0"
    using l by (simp add: word_less_nat_alt word_le_nat_alt)
  show ?thesis
    using n by (simp add: sendCertificate_def f cfg getLastSentBlockAndRetryCount_def limit_envA b s)
qed

lemma build_envS:
  assumes "e_GetExitRootByIndex env = (\<lambda>index. Inr (replicate 32 3))"
  shows "\<exists>cert. buildCertificate cfgA env
     \<lparr>p_FromBlock = 1, p_ToBlock = lastL2, p_Bridges = [bridgeAt 25], p_Claims = [], p_CreatedAt = 1000\<rparr>
     None False = Inr cert"
  using assms
  by (simp add: buildCertificate_def IsEmpty_def getImportedBridgeExits_def exitRootAndBridgeExits_def
      getNextHeightAndPreviousLER_def)

lemma tick_envS1:
  "\<exists>signedCert. tick cfgA False False False False envS1 =
     Some \<lparr>t_thereArePendingCerts = False, t_writes = [],
           t_send = Some (returned (Inr (Some signedCert)) [(signedCert, Inr (replicate 32 8))])\<rparr>"
proof -
  obtain cert where b: "buildCertificate cfgA envS1
     \<lparr>p_FromBlock = 1, p_ToBlock = 30, p_Bridges = [bridgeAt 25], p_Claims = [], p_CreatedAt = 1000\<rparr>
     None False = Inr cert"
    using build_envS [of envS1 30] by (auto simp: envS1_def envA_def)
  obtain signedCert where s: "signCertificate envS1 cert = Inr signedCert"
    using sign_envS [of envS1 cert] by (auto simp: envS1_def envA_def)
  have "sendCertificate cfgA envS1 False False False False =
           Some (returned (Inr (Some signedCert)) [(signedCert, Inr (replicate 32 8))])"
    by (rule send_not_stored [OF _ _ _ _ _ _ _ _ _ b s]) (simp_all add: envS1_def envA_def)
  moreover have "checkPendingCertificatesStatus envS1 = (False, [])"
    by (simp add: checkPendingCertificatesStatus_def envS1_def envA_def)
  ultimately show ?thesis
    by (intro exI [of _ signedCert]) (simp add: tick_def)
qed

lemma tick_envS2:
  "\<exists>signedCert. tick cfgA False False False False envS2 =
     Some \<lparr>t_thereArePendingCerts = False, t_writes = [],
           t_send = Some (returned (Inr (Some signedCert)) [(signedCert, Inr (replicate 32 9))])\<rparr>"
proof -
  obtain cert where b: "buildCertificate cfgA envS2
     \<lparr>p_FromBlock = 1, p_ToBlock = 31, p_Bridges = [bridgeAt 25], p_Claims = [], p_CreatedAt = 1000\<rparr>
     None False = Inr cert"
    using build_envS [of envS2 31] by (auto simp: envS2_def envA_def)
  obtain signedCert where s: "signCertificate envS2 cert = Inr signedCert"
    using sign_envS [of envS2 cert] by (auto simp: envS2_def envA_def)
  have "sendCertificate cfgA envS2 False False False False =
           Some (returned (Inr (Some signedCert)) [(signedCert, Inr (replicate 32 9))])"
    by (rule send_not_stored [OF _ _ _ _ _ _ _ _ _ b s]) (simp_all add: envS2_def envA_def)
  moreover have "checkPendingCertificatesStatus envS2 = (False, [])"
    by (simp add: checkPendingCertificatesStatus_def envS2_def envA_def)
  ultimately show ?thesis
    by (intro exI [of _ signedCert]) (simp add: tick_def)
qed

text \<open>
  The claim as written fails where sent certificates are not recorded. With storing
  disabled (the default of the command line), two consecutive ticks each hand a certificate
  to the remote authority, which accepts both and reports them as pending; the store is
  never written, so the pending check of the second tick finds nothing: two certificates
  are in flight.
\<close>

theorem tick_gate_counterexample:
  "map_option (inFlight envS2) (sendCertificates cfgA False False False False [envS1, envS2]) =
     Some [replicate 32 8, replicate 32 9] \<and>
   map_option storeWrites (sendCertificates cfgA False False False False [envS1, envS2]) = Some [] \<and>
   \<not> length [replicate 32 8 :: Hash, replicate 32 9] \<le> 1"
proof -
  obtain s1 where t1: "tick cfgA False False False False envS1 =
     Some \<lparr>t_thereArePendingCerts = False, t_writes = [],
           t_send = Some (returned (Inr (Some s1)) [(s1, Inr (replicate 32 8))])\<rparr>"
    using tick_envS1 by blast
  obtain s2 where t2: "tick cfgA False False False False envS2 =
     Some \<lparr>t_thereArePendingCerts = False, t_writes = [],
           t_send = Some (returned (Inr (Some s2)) [(s2, Inr (replicate 32 9))])\<rparr>"
    using tick_envS2 by blast
  have run: "sendCertificates cfgA False False False False [envS1, envS2] =
     Some [\<lparr>t_thereArePendingCerts = False, t_writes = [],
            t_send = Some (returned (Inr (Some s1)) [(s1, Inr (replicate 32 8))])\<rparr>,
           \<lparr>t_thereArePendingCerts = False, t_writes = [],
            t_send = Some (returned (Inr (Some s2)) [(s2, Inr (replicate 32 9))])\<rparr>]"
    by (simp add: t1 t2 returned_def)
  have hdr: "e_GetCertificateHeader envS2 = (\<lambda>certificateID. Inr headerA)"
    by (simp add: envS2_def envA_def)
  show ?thesis
    unfolding run
    by (simp add: inFlight_def acceptedCertificates_def storeWrites_def returned_def hdr
          headerA_def IsOpen_def IsClosed_def)
qed

lemma check_envPending: "checkPendingCertificatesStatus envPending = (True, [])"
  by (simp add: checkPendingCertificatesStatus_def envPending_def envA_def headerA_def
        updateCertificateStatus_def IsClosed_def)

theorem tick_gate_witness:
  "fst (checkPendingCertificatesStatus envPending) \<and>
   tick cfgA False False True False envPending =
     Some \<lparr>t_thereArePendingCerts = True, t_writes = [], t_send = None\<rparr> \<and>
   \<not> fst (checkPendingCertificatesStatus envNoBridges) \<and>
   tick cfgA False False True False envNoBridges =
     Some \<lparr>t_thereArePendingCerts = False, t_writes = [], t_send = Some (returned (Inr None) [])\<rparr> \<and>
   (\<exists>r. sendCertificate cfgA envA False False True False = Some r \<and> length (sr_sent r) \<le> 1)"
proof -
  have p: "fst (checkPendingCertificatesStatus envPending)"
    by (simp add: check_envPending)
  have a: "tick cfgA False False True False envPending =
     Some \<lparr>t_thereArePendingCerts = True, t_writes = [], t_send = None\<rparr>"
    using tick_gate [where env = envPending and cfg = cfgA and emptyCert = False and addFakeBridge = False
                       and storeCertificate = True and singleCert = False,
                     THEN conjunct2, THEN conjunct1, THEN mp, OF p]
    by (simp add: check_envPending)
  have q: "e_GetCertificatesByStatus envNoBridges NonSettledStatuses = Inr []"
    by (simp add: envNoBridges_def envA_def)
  have n: "\<not> fst (checkPendingCertificatesStatus envNoBridges)"
    using tick_gate [where env = envNoBridges, THEN conjunct1] q by simp
  have w: "snd (checkPendingCertificatesStatus envNoBridges) = []"
    using q by (simp add: checkPendingCertificatesStatus_def)
  have s: "sendCertificate cfgA envNoBridges False False True False = Some (returned (Inr None) [])"
    using envNoBridges_hyps by (elim conjE) (rule sendCertificate_no_bridges)
  have b: "tick cfgA False False True False envNoBridges =
     Some \<lparr>t_thereArePendingCerts = False, t_writes = [], t_send = Some (returned (Inr None) [])\<rparr>"
    using tick_gate [where env = envNoBridges and cfg = cfgA and emptyCert = False and addFakeBridge = False
                       and storeCertificate = True and singleCert = False,
                     THEN conjunct2, THEN conjunct2, THEN conjunct1, THEN mp, OF n]
    by (simp add: w s)
  obtain r where r: "sendCertificate cfgA envA False False True False = Some r"
    using send_envA by blast
  have "length (sr_sent r) \<le> 1"
    using tick_gate [where env = envA and cfg = cfgA and emptyCert = False and addFakeBridge = False
                       and storeCertificate = True and singleCert = False and r = r,
                     THEN conjunct2, THEN conjunct2, THEN conjunct2, THEN mp, OF r]
    by simp
  then have c: "\<exists>r. sendCertificate cfgA envA False False True False = Some r \<and> length (sr_sent r) \<le> 1"
    using r by blast
  show ?thesis
    using p a n b c by (intro conjI)
qed

end
